theory Spec2Isabelle
  imports Main "HOL-Library.Finite_Map" "HOL-Library.Sublist"
begin

section \<open>Python values, objects and exceptions\<close>

text \<open>
  The four modules handle strings, lists of strings and dictionaries taken from the
  module parameters, and objects returned by the cloud. A dictionary is a finite map, so
  that equality of two dictionaries is equality of their key/value mappings, as in Python.
\<close>

datatype pyval =
    PNone
  | PStr string
  | PInt int
  | PList "pyval list"
  | PDict "(string, pyval) fmap"

type_synonym pydict = "(string, pyval) fmap"

datatype pyexn =
    OpenStackCloudException string
  | NameError string
  | AttributeError string
  | TypeError string
  | KeyError string

text \<open>
  An object of the remote store: a mapping that always carries an \<open>id\<close>, plus the other
  fields it was returned with. Such a mapping is never empty, so \<open>not obj\<close> holds in the
  source exactly when the lookup returned \<open>None\<close>.
\<close>

record obj =
  obj_id :: string
  obj_fields :: pydict

text \<open>\<open>ob[key]\<close>: raises \<open>KeyError\<close> when the object lacks the key.\<close>

definition getitem :: "obj \<Rightarrow> string \<Rightarrow> pyexn + pyval" where
  "getitem ob key =
     (if key = ''id'' then Inr (PStr (obj_id ob))
      else case fmlookup (obj_fields ob) key of
             None \<Rightarrow> Inl (KeyError key)
           | Some v \<Rightarrow> Inr v)"

text \<open>
  \<open>d.get(key, default)\<close> on a value that is a dictionary or \<open>None\<close>. The attribute
  \<open>get\<close> is looked up first (\<open>AttributeError\<close> on \<open>None\<close>), then the default argument
  is evaluated (it may raise), then the call is made.
\<close>

definition dict_get :: "pydict option \<Rightarrow> string \<Rightarrow> pyexn + pyval \<Rightarrow> pyexn + pyval" where
  "dict_get d key dflt =
     (case d of
        None \<Rightarrow> Inl (AttributeError ''get'')
      | Some m \<Rightarrow>
          (case dflt of
             Inl e \<Rightarrow> Inl e
           | Inr dv \<Rightarrow> Inr (case fmlookup m key of None \<Rightarrow> dv | Some v \<Rightarrow> v)))"

text \<open>\<open>set(v)\<close>: the elements of an iterable, which must be hashable.\<close>

fun hashable :: "pyval \<Rightarrow> bool" where
  "hashable PNone = True"
| "hashable (PStr s) = True"
| "hashable (PInt i) = True"
| "hashable (PList xs) = False"
| "hashable (PDict d) = False"

fun py_set :: "pyval \<Rightarrow> pyexn + pyval set" where
  "py_set PNone = Inl (TypeError ''not iterable'')"
| "py_set (PInt i) = Inl (TypeError ''not iterable'')"
| "py_set (PStr s) = Inr (set (map (\<lambda>ch. PStr [ch]) s))"
| "py_set (PList xs) =
     (if list_all hashable xs then Inr (set xs) else Inl (TypeError ''unhashable''))"
| "py_set (PDict d) = Inr (PStr ` fmdom' d)"

text \<open>Truth value of an optional string or list parameter: \<open>None\<close> and the empty value are false.\<close>

fun truthy :: "'a list option \<Rightarrow> bool" where
  "truthy None = False"
| "truthy (Some xs) = (xs \<noteq> [])"

text \<open>The parameters of a module as Python values, for \<open>module.params[key]\<close>.\<close>

fun opt_str :: "string option \<Rightarrow> pyval" where
  "opt_str None = PNone"
| "opt_str (Some s) = PStr s"

fun opt_list :: "string list option \<Rightarrow> pyval" where
  "opt_list None = PNone"
| "opt_list (Some xs) = PList (map PStr xs)"

fun opt_dict :: "pydict option \<Rightarrow> pyval" where
  "opt_dict None = PNone"
| "opt_dict (Some d) = PDict d"

datatype target = Present | Absent

section \<open>The remote store and the trace of calls\<close>

datatype kind = Port | FlowClassifier | PortPair | PortPairGroup | PortChain

datatype call =
    Get kind string
  | Create kind pydict
  | Update kind string pydict
  | Delete kind string

fun mutating :: "call \<Rightarrow> bool" where
  "mutating (Get k n) = False"
| "mutating (Create k kw) = True"
| "mutating (Update k i kw) = True"
| "mutating (Delete k i) = True"

text \<open>
  The cloud is a parameter: what each operation answers. \<open>Inl msg\<close> is an
  \<open>OpenStackCloudException\<close> with that message.
\<close>

record cloud =
  lookup :: "kind \<Rightarrow> string \<Rightarrow> string + obj option"
  create :: "kind \<Rightarrow> pydict \<Rightarrow> string + obj"
  update :: "kind \<Rightarrow> string \<Rightarrow> pydict \<Rightarrow> string + obj"
  delete :: "kind \<Rightarrow> string \<Rightarrow> string + unit"

text \<open>
  How a run of a module ends: \<open>module.exit_json\<close> (the changed flag and the resulting
  object, when one is reported), \<open>module.fail_json\<close>, or an exception nobody catches.
\<close>

datatype abrupt =
    ExitJson bool "obj option"
  | FailJson string
  | Raise pyexn

text \<open>A computation takes the trace of remote calls so far and returns it extended.\<close>

type_synonym 'a run = "call list \<Rightarrow> (abrupt + 'a) \<times> call list"

definition ret :: "'a \<Rightarrow> 'a run" where
  "ret x = (\<lambda>t. (Inr x, t))"

definition throw :: "abrupt \<Rightarrow> 'a run" where
  "throw a = (\<lambda>t. (Inl a, t))"

definition bnd :: "'a run \<Rightarrow> ('a \<Rightarrow> 'b run) \<Rightarrow> 'b run" where
  "bnd m f = (\<lambda>t. case m t of (Inl a, t') \<Rightarrow> (Inl a, t') | (Inr x, t') \<Rightarrow> f x t')"

definition lift :: "pyexn + 'a \<Rightarrow> 'a run" where
  "lift r = (case r of Inl e \<Rightarrow> throw (Raise e) | Inr x \<Rightarrow> ret x)"

definition remote :: "call \<Rightarrow> string + 'a \<Rightarrow> 'a run" where
  "remote cl r =
     (\<lambda>t. (case r of Inl msg \<Rightarrow> Inl (Raise (OpenStackCloudException msg)) | Inr x \<Rightarrow> Inr x,
           t @ [cl]))"

definition exit_json :: "bool \<Rightarrow> obj option \<Rightarrow> 'a run" where
  "exit_json changed res = throw (ExitJson changed res)"

definition fail_json :: "string \<Rightarrow> 'a run" where
  "fail_json msg = throw (FailJson msg)"

text \<open>\<open>try: ... except shade.OpenStackCloudException as e: module.fail_json(msg=str(e))\<close>\<close>

definition try_except :: "'a run \<Rightarrow> 'a run" where
  "try_except body =
     (\<lambda>t. case body t of
            (Inl (Raise (OpenStackCloudException msg)), t') \<Rightarrow> fail_json msg t'
          | r \<Rightarrow> r)"

definition get_port :: "cloud \<Rightarrow> string \<Rightarrow> obj option run" where
  "get_port c n = remote (Get Port n) (lookup c Port n)"

definition get_sfc_flow_classifier :: "cloud \<Rightarrow> string \<Rightarrow> obj option run" where
  "get_sfc_flow_classifier c n = remote (Get FlowClassifier n) (lookup c FlowClassifier n)"

definition get_sfc_port_pair :: "cloud \<Rightarrow> string \<Rightarrow> obj option run" where
  "get_sfc_port_pair c n = remote (Get PortPair n) (lookup c PortPair n)"

definition get_sfc_port_pair_group :: "cloud \<Rightarrow> string \<Rightarrow> obj option run" where
  "get_sfc_port_pair_group c n = remote (Get PortPairGroup n) (lookup c PortPairGroup n)"

definition get_sfc_port_chain :: "cloud \<Rightarrow> string \<Rightarrow> obj option run" where
  "get_sfc_port_chain c n = remote (Get PortChain n) (lookup c PortChain n)"

definition create_sfc_flow_classifier :: "cloud \<Rightarrow> pydict \<Rightarrow> obj run" where
  "create_sfc_flow_classifier c kw = remote (Create FlowClassifier kw) (create c FlowClassifier kw)"

definition create_sfc_port_pair :: "cloud \<Rightarrow> pydict \<Rightarrow> obj run" where
  "create_sfc_port_pair c kw = remote (Create PortPair kw) (create c PortPair kw)"

definition create_sfc_port_pair_group :: "cloud \<Rightarrow> pydict \<Rightarrow> obj run" where
  "create_sfc_port_pair_group c kw = remote (Create PortPairGroup kw) (create c PortPairGroup kw)"

definition create_sfc_port_chain :: "cloud \<Rightarrow> pydict \<Rightarrow> obj run" where
  "create_sfc_port_chain c kw = remote (Create PortChain kw) (create c PortChain kw)"

definition update_sfc_flow_classifier :: "cloud \<Rightarrow> string \<Rightarrow> pydict \<Rightarrow> obj run" where
  "update_sfc_flow_classifier c i kw =
     remote (Update FlowClassifier i kw) (update c FlowClassifier i kw)"

definition update_sfc_port_pair :: "cloud \<Rightarrow> string \<Rightarrow> pydict \<Rightarrow> obj run" where
  "update_sfc_port_pair c i kw = remote (Update PortPair i kw) (update c PortPair i kw)"

definition update_sfc_port_chain :: "cloud \<Rightarrow> string \<Rightarrow> pydict \<Rightarrow> obj run" where
  "update_sfc_port_chain c i kw = remote (Update PortChain i kw) (update c PortChain i kw)"

definition delete_sfc_flow_classifier :: "cloud \<Rightarrow> string \<Rightarrow> unit run" where
  "delete_sfc_flow_classifier c i = remote (Delete FlowClassifier i) (delete c FlowClassifier i)"

definition delete_sfc_port_pair :: "cloud \<Rightarrow> string \<Rightarrow> unit run" where
  "delete_sfc_port_pair c i = remote (Delete PortPair i) (delete c PortPair i)"

definition delete_sfc_port_pair_group :: "cloud \<Rightarrow> string \<Rightarrow> unit run" where
  "delete_sfc_port_pair_group c i = remote (Delete PortPairGroup i) (delete c PortPairGroup i)"

definition delete_sfc_port_chain :: "cloud \<Rightarrow> string \<Rightarrow> unit run" where
  "delete_sfc_port_chain c i = remote (Delete PortChain i) (delete c PortChain i)"

section \<open>Code shared by the four modules\<close>

text \<open>
  \<open>for key in compare_simple: value = ports.get(key, ob[key]);
  if module.params[key] is not None and module.params[key] != value: return True\<close>.
  \<open>Inr True\<close> is the early return, \<open>Inr False\<close> the end of the loop.
\<close>

fun compare_simple :: "(string \<Rightarrow> pyval) \<Rightarrow> obj \<Rightarrow> pydict option \<Rightarrow> string list \<Rightarrow> pyexn + bool" where
  "compare_simple params ob ports [] = Inr False"
| "compare_simple params ob ports (key # keys) =
     (case dict_get ports key (getitem ob key) of
        Inl e \<Rightarrow> Inl e
      | Inr v \<Rightarrow>
          if params key \<noteq> PNone \<and> params key \<noteq> v then Inr True
          else compare_simple params ob ports keys)"

text \<open>
  \<open>for key in compare_dict:
  if module.params[key] is not None and module.params[key] != ob[key]: return True\<close>
\<close>

fun compare_dict :: "(string \<Rightarrow> pyval) \<Rightarrow> obj \<Rightarrow> string list \<Rightarrow> pyexn + bool" where
  "compare_dict params ob [] = Inr False"
| "compare_dict params ob (key # keys) =
     (if params key \<noteq> PNone then
        (case getitem ob key of
           Inl e \<Rightarrow> Inl e
         | Inr v \<Rightarrow> if params key \<noteq> v then Inr True else compare_dict params ob keys)
      else compare_dict params ob keys)"

text \<open>
  \<open>for optional_param in optional_parameters:
  if module.params[optional_param] is not None: kwargs[optional_param] = ...\<close>
\<close>

fun compose_optional :: "(string \<Rightarrow> pyval) \<Rightarrow> string list \<Rightarrow> pydict \<Rightarrow> pydict" where
  "compose_optional params [] kw = kw"
| "compose_optional params (k # ks) kw =
     compose_optional params ks (if params k \<noteq> PNone then fmupd k (params k) kw else kw)"

section \<open>os_sfc_port_pair\<close>

record pp_module =
  pp_name :: "string option"
  pp_ingress :: "string option"
  pp_egress :: "string option"
  pp_service_function_parameters :: "pydict option"
  pp_state :: target
  pp_check_mode :: bool

definition pp_params :: "pp_module \<Rightarrow> string \<Rightarrow> pyval" where
  "pp_params m key =
     (if key = ''name'' then opt_str (pp_name m)
      else if key = ''ingress'' then opt_str (pp_ingress m)
      else if key = ''egress'' then opt_str (pp_egress m)
      else if key = ''service_function_parameters'' then opt_dict (pp_service_function_parameters m)
      else PNone)"

definition pp_needs_update :: "pp_module \<Rightarrow> obj \<Rightarrow> pydict \<Rightarrow> pyexn + bool" where
  "pp_needs_update m pp ports =
     (case compare_simple (pp_params m) pp (Some ports) [''ingress'', ''egress''] of
        Inl e \<Rightarrow> Inl e
      | Inr True \<Rightarrow> Inr True
      | Inr False \<Rightarrow> compare_dict (pp_params m) pp [''service_function_parameters''])"

definition pp_system_state_change :: "pp_module \<Rightarrow> obj option \<Rightarrow> pydict \<Rightarrow> pyexn + bool" where
  "pp_system_state_change m pp ports =
     (case pp_state m of
        Present \<Rightarrow> (case pp of None \<Rightarrow> Inr True | Some ob \<Rightarrow> pp_needs_update m ob ports)
      | Absent \<Rightarrow> Inr (pp \<noteq> None))"

definition pp_compose_port_pair_args :: "pp_module \<Rightarrow> pydict" where
  "pp_compose_port_pair_args m =
     compose_optional (pp_params m)
       [''name'', ''ingress'', ''egress'', ''service_function_parameters''] fmempty"

text \<open>\<open>d[key]\<close> on a dictionary built by the module.\<close>

definition dict_item :: "pydict \<Rightarrow> string \<Rightarrow> pyexn + pyval" where
  "dict_item d key = (case fmlookup d key of None \<Rightarrow> Inl (KeyError key) | Some v \<Rightarrow> Inr v)"

text \<open>
  \<open>_ports_get_ids\<close>. When \<open>ingress\<close> or \<open>egress\<close> is not given, the source calls
  \<open>fail_json\<close> if \<open>fail_on_error\<close> is set and otherwise returns \<open>port_ids\<close>, a name
  that is not defined (the dictionary is \<open>ports_ids\<close>).
\<close>

definition pp_missing :: "bool \<Rightarrow> string \<Rightarrow> pydict run" where
  "pp_missing fail_on_error msg =
     (if fail_on_error then fail_json msg else throw (Raise (NameError ''port_ids'')))"

definition pp_resolve_ports :: "cloud \<Rightarrow> bool \<Rightarrow> string \<Rightarrow> string \<Rightarrow> pydict run" where
  "pp_resolve_ports c fail_on_error ingress egress =
     bnd (get_port c ingress) (\<lambda>ingress_port.
     bnd (case ingress_port of
            None \<Rightarrow>
              if fail_on_error then fail_json ''Specified ingress port was not found.''
              else ret fmempty
          | Some p \<Rightarrow> ret (fmupd ''ingress'' (PStr (obj_id p)) fmempty)) (\<lambda>ports_ids.
     bnd (get_port c egress) (\<lambda>egress_port.
       case egress_port of
         None \<Rightarrow>
           if fail_on_error then fail_json ''Specified egress port was not found.''
           else ret ports_ids
       | Some p \<Rightarrow> ret (fmupd ''egress'' (PStr (obj_id p)) ports_ids))))"

definition pp_ports_get_ids :: "pp_module \<Rightarrow> cloud \<Rightarrow> bool \<Rightarrow> pydict run" where
  "pp_ports_get_ids m c fail_on_error =
     (case pp_ingress m of
        None \<Rightarrow> pp_missing fail_on_error ''Parameter 'ingress' is required in Sfc Port Pair Create''
      | Some ingress \<Rightarrow>
          if ingress = []
          then pp_missing fail_on_error ''Parameter 'ingress' is required in Sfc Port Pair Create''
          else
            (case pp_egress m of
               None \<Rightarrow>
                 pp_missing fail_on_error ''Parameter 'egress' is required in Sfc Port Pair Create''
             | Some egress \<Rightarrow>
                 if egress = []
                 then pp_missing fail_on_error
                        ''Parameter 'egress' is required in Sfc Port Pair Create''
                 else pp_resolve_ports c fail_on_error ingress egress))"

text \<open>The lookup of the current object: \<open>if name: ob = cloud.get_...(name)\<close>.\<close>

definition current :: "string option \<Rightarrow> (string \<Rightarrow> obj option run) \<Rightarrow> obj option run" where
  "current name getter =
     (case name of
        None \<Rightarrow> ret None
      | Some n \<Rightarrow> if n = [] then ret None else getter n)"

definition pp_present :: "pp_module \<Rightarrow> cloud \<Rightarrow> obj option \<Rightarrow> unit run" where
  "pp_present m c pp =
     bnd (pp_ports_get_ids m c True) (\<lambda>ports.
     bnd (case pp of
            None \<Rightarrow>
              bnd (lift (dict_item ports ''ingress'')) (\<lambda>i.
              bnd (lift (dict_item ports ''egress'')) (\<lambda>e.
              bnd (create_sfc_port_pair c
                     (fmupd ''egress'' e (fmupd ''ingress'' i (pp_compose_port_pair_args m))))
                  (\<lambda>created. ret (created, True))))
          | Some ob \<Rightarrow>
              bnd (lift (pp_needs_update m ob ports)) (\<lambda>needs.
              if needs
              then bnd (update_sfc_port_pair c (obj_id ob) (pp_compose_port_pair_args m))
                     (\<lambda>updated. ret (updated, True))
              else ret (ob, False))) (\<lambda>(pp', changed).
     exit_json changed (Some pp')))"

definition pp_absent :: "cloud \<Rightarrow> obj option \<Rightarrow> unit run" where
  "pp_absent c pp =
     bnd (case pp of
            None \<Rightarrow> ret False
          | Some ob \<Rightarrow> bnd (delete_sfc_port_pair c (obj_id ob)) (\<lambda>u. ret True)) (\<lambda>changed.
     exit_json changed None)"

definition pp_main :: "pp_module \<Rightarrow> cloud \<Rightarrow> unit run" where
  "pp_main m c =
     try_except
       (bnd (current (pp_name m) (get_sfc_port_pair c)) (\<lambda>pp.
        bnd (if pp_check_mode m then
               bnd (pp_ports_get_ids m c False) (\<lambda>ports.
               bnd (lift (pp_system_state_change m pp ports)) (\<lambda>changed.
               exit_json changed None))
             else ret ()) (\<lambda>u.
        case pp_state m of
          Present \<Rightarrow> pp_present m c pp
        | Absent \<Rightarrow> pp_absent c pp)))"

section \<open>os_sfc_flow_classifier\<close>

record fc_module =
  fc_name :: "string option"
  fc_ethertype :: "string option"
  fc_protocol :: "string option"
  fc_source_port_range_min :: "string option"
  fc_source_port_range_max :: "string option"
  fc_destination_port_range_min :: "string option"
  fc_destination_port_range_max :: "string option"
  fc_source_ip_prefix :: "string option"
  fc_destination_ip_prefix :: "string option"
  fc_logical_source_port :: "string option"
  fc_logical_destination_port :: "string option"
  fc_l7_parameters :: "pydict option"
  fc_state :: target
  fc_check_mode :: bool

definition fc_params :: "fc_module \<Rightarrow> string \<Rightarrow> pyval" where
  "fc_params m key =
     (if key = ''name'' then opt_str (fc_name m)
      else if key = ''ethertype'' then opt_str (fc_ethertype m)
      else if key = ''protocol'' then opt_str (fc_protocol m)
      else if key = ''source_port_range_min'' then opt_str (fc_source_port_range_min m)
      else if key = ''source_port_range_max'' then opt_str (fc_source_port_range_max m)
      else if key = ''destination_port_range_min'' then opt_str (fc_destination_port_range_min m)
      else if key = ''destination_port_range_max'' then opt_str (fc_destination_port_range_max m)
      else if key = ''source_ip_prefix'' then opt_str (fc_source_ip_prefix m)
      else if key = ''destination_ip_prefix'' then opt_str (fc_destination_ip_prefix m)
      else if key = ''logical_source_port'' then opt_str (fc_logical_source_port m)
      else if key = ''logical_destination_port'' then opt_str (fc_logical_destination_port m)
      else if key = ''l7_parameters'' then opt_dict (fc_l7_parameters m)
      else PNone)"

definition fc_compare_simple :: "string list" where
  "fc_compare_simple =
     [''ethertype'', ''protocol'', ''source_port_range_min'', ''source_port_range_max'',
      ''destination_port_range_min'', ''destination_port_range_max'', ''source_ip_prefix'',
      ''destination_ip_prefix'', ''logical_source_port'', ''logical_destination_port'']"

definition fc_needs_update :: "fc_module \<Rightarrow> obj \<Rightarrow> pydict \<Rightarrow> pyexn + bool" where
  "fc_needs_update m fc ports =
     (case compare_simple (fc_params m) fc (Some ports) fc_compare_simple of
        Inl e \<Rightarrow> Inl e
      | Inr True \<Rightarrow> Inr True
      | Inr False \<Rightarrow> compare_dict (fc_params m) fc [''l7_parameters''])"

definition fc_system_state_change :: "fc_module \<Rightarrow> obj option \<Rightarrow> pydict \<Rightarrow> pyexn + bool" where
  "fc_system_state_change m fc ports =
     (case fc_state m of
        Present \<Rightarrow> (case fc of None \<Rightarrow> Inr True | Some ob \<Rightarrow> fc_needs_update m ob ports)
      | Absent \<Rightarrow> Inr (fc \<noteq> None))"

definition fc_optional_parameters :: "string list" where
  "fc_optional_parameters =
     [''name'', ''ethertype'', ''protocol'', ''source_port_range_min'', ''source_port_range_max'',
      ''destination_port_range_min'', ''destination_port_range_max'', ''source_ip_prefix'',
      ''destination_ip_prefix'', ''l7_parameters'']"

text \<open>\<open>if key in ports: kwargs[key] = ports[key]\<close>\<close>

definition copy_if_in :: "string \<Rightarrow> pydict \<Rightarrow> pydict \<Rightarrow> pydict" where
  "copy_if_in key ports kw = (case fmlookup ports key of None \<Rightarrow> kw | Some v \<Rightarrow> fmupd key v kw)"

definition fc_compose_flow_classifier_args :: "fc_module \<Rightarrow> pydict \<Rightarrow> pydict" where
  "fc_compose_flow_classifier_args m ports =
     copy_if_in ''logical_destination_port'' ports
       (copy_if_in ''logical_source_port'' ports
          (compose_optional (fc_params m) fc_optional_parameters fmempty))"

text \<open>One of the two blocks of \<open>_ports_get_ids\<close>: resolve a logical port when it is given.\<close>

definition fc_resolve_port ::
  "cloud \<Rightarrow> bool \<Rightarrow> string \<Rightarrow> string \<Rightarrow> string option \<Rightarrow> pydict \<Rightarrow> pydict run" where
  "fc_resolve_port c fail_on_error key msg port ports_ids =
     (case port of
        None \<Rightarrow> ret ports_ids
      | Some n \<Rightarrow>
          bnd (get_port c n) (\<lambda>found.
            case found of
              None \<Rightarrow> if fail_on_error then fail_json msg else ret ports_ids
            | Some p \<Rightarrow> ret (fmupd key (PStr (obj_id p)) ports_ids)))"

definition fc_ports_get_ids :: "fc_module \<Rightarrow> cloud \<Rightarrow> bool \<Rightarrow> pydict run" where
  "fc_ports_get_ids m c fail_on_error =
     bnd (fc_resolve_port c fail_on_error ''logical_source_port''
            ''Specified logical source port was not found.'' (fc_logical_source_port m) fmempty)
       (\<lambda>ports_ids.
     fc_resolve_port c fail_on_error ''logical_destination_port''
       ''Specified logical destination port was not found.'' (fc_logical_destination_port m)
       ports_ids)"

text \<open>In \<open>main\<close> the present branch calls \<open>_ports_get_ids(module, cloud)\<close>: \<open>fail_on_error\<close>
  has its default, which in this module is \<open>False\<close>.\<close>

definition fc_present :: "fc_module \<Rightarrow> cloud \<Rightarrow> obj option \<Rightarrow> unit run" where
  "fc_present m c fc =
     bnd (fc_ports_get_ids m c False) (\<lambda>ports.
     bnd (case fc of
            None \<Rightarrow>
              bnd (create_sfc_flow_classifier c (fc_compose_flow_classifier_args m ports))
                (\<lambda>created. ret (created, True))
          | Some ob \<Rightarrow>
              bnd (lift (fc_needs_update m ob ports)) (\<lambda>needs.
              if needs
              then bnd (update_sfc_flow_classifier c (obj_id ob)
                          (fc_compose_flow_classifier_args m ports))
                     (\<lambda>updated. ret (updated, True))
              else ret (ob, False))) (\<lambda>(fc', changed).
     exit_json changed (Some fc')))"

definition fc_absent :: "cloud \<Rightarrow> obj option \<Rightarrow> unit run" where
  "fc_absent c fc =
     bnd (case fc of
            None \<Rightarrow> ret False
          | Some ob \<Rightarrow> bnd (delete_sfc_flow_classifier c (obj_id ob)) (\<lambda>u. ret True))
       (\<lambda>changed.
     exit_json changed None)"

definition fc_main :: "fc_module \<Rightarrow> cloud \<Rightarrow> unit run" where
  "fc_main m c =
     try_except
       (bnd (current (fc_name m) (get_sfc_flow_classifier c)) (\<lambda>fc.
        bnd (if fc_check_mode m then
               bnd (fc_ports_get_ids m c False) (\<lambda>ports.
               bnd (lift (fc_system_state_change m fc ports)) (\<lambda>changed.
               exit_json changed None))
             else ret ()) (\<lambda>u.
        case fc_state m of
          Present \<Rightarrow> fc_present m c fc
        | Absent \<Rightarrow> fc_absent c fc)))"

section \<open>os_sfc_port_pair_group\<close>

record ppg_module =
  ppg_name :: "string option"
  ppg_port_pairs :: "string list option"
  ppg_port_pair_group_parameters :: "pydict option"
  ppg_state :: target
  ppg_check_mode :: bool

definition ppg_params :: "ppg_module \<Rightarrow> string \<Rightarrow> pyval" where
  "ppg_params m key =
     (if key = ''name'' then opt_str (ppg_name m)
      else if key = ''port_pairs'' then opt_list (ppg_port_pairs m)
      else if key = ''port_pair_group_parameters''
        then opt_dict (ppg_port_pair_group_parameters m)
      else PNone)"

text \<open>
  \<open>if set(port_pairs) != set(ppg['port_pairs']): return True\<close>, then the dictionary
  loop. \<open>port_pairs\<close> is what \<open>_port_pairs_get_ids\<close> returned: a list of IDs or \<open>None\<close>.
\<close>

definition ppg_needs_update :: "ppg_module \<Rightarrow> obj \<Rightarrow> string list option \<Rightarrow> pyexn + bool" where
  "ppg_needs_update m ppg port_pairs =
     (case py_set (opt_list port_pairs) of
        Inl e \<Rightarrow> Inl e
      | Inr wanted \<Rightarrow>
          (case getitem ppg ''port_pairs'' of
             Inl e \<Rightarrow> Inl e
           | Inr v \<Rightarrow>
               (case py_set v of
                  Inl e \<Rightarrow> Inl e
                | Inr have \<Rightarrow>
                    if wanted \<noteq> have then Inr True
                    else compare_dict (ppg_params m) ppg [''port_pair_group_parameters''])))"

definition ppg_system_state_change ::
  "ppg_module \<Rightarrow> obj option \<Rightarrow> string list option \<Rightarrow> pyexn + bool" where
  "ppg_system_state_change m ppg port_pairs =
     (case ppg_state m of
        Present \<Rightarrow> (case ppg of None \<Rightarrow> Inr True | Some ob \<Rightarrow> ppg_needs_update m ob port_pairs)
      | Absent \<Rightarrow> Inr (ppg \<noteq> None))"

definition ppg_compose_port_pair_group_args :: "ppg_module \<Rightarrow> string list option \<Rightarrow> pydict" where
  "ppg_compose_port_pair_group_args m port_pairs =
     fmupd ''port_pairs'' (opt_list port_pairs)
       (compose_optional (ppg_params m) [''name'', ''port_pair_group_parameters''] fmempty)"

text \<open>
  The loop of \<open>_port_pairs_get_ids\<close>. When a port pair is not found and \<open>fail_on_error\<close>
  is false, the source goes on to \<open>pp['id']\<close> with \<open>pp = None\<close>.
\<close>

fun ppg_resolve :: "cloud \<Rightarrow> bool \<Rightarrow> string list \<Rightarrow> string list \<Rightarrow> string list run" where
  "ppg_resolve c fail_on_error [] port_pairs = ret port_pairs"
| "ppg_resolve c fail_on_error (n # rest) port_pairs =
     bnd (get_sfc_port_pair c n) (\<lambda>pp.
       case pp of
         None \<Rightarrow>
           if fail_on_error
           then fail_json (''Specified port pair `'' @ n @ ''' was not found.'')
           else throw (Raise (TypeError ''NoneType is not subscriptable''))
       | Some p \<Rightarrow> ppg_resolve c fail_on_error rest (port_pairs @ [obj_id p]))"

definition ppg_port_pairs_get_ids :: "ppg_module \<Rightarrow> cloud \<Rightarrow> bool \<Rightarrow> string list option run" where
  "ppg_port_pairs_get_ids m c fail_on_error =
     (case ppg_port_pairs m of
        None \<Rightarrow>
          if fail_on_error
          then fail_json ''Parameter 'port_pairs' is required in Sfc Port Pair Group Create''
          else ret None
      | Some port_pair_ids \<Rightarrow>
          if port_pair_ids = [] then
            (if fail_on_error
             then fail_json ''Parameter 'port_pairs' is required in Sfc Port Pair Group Create''
             else ret None)
          else bnd (ppg_resolve c fail_on_error port_pair_ids []) (\<lambda>port_pairs.
               ret (Some port_pairs)))"

text \<open>
  The update branch of \<open>main\<close> calls \<open>_compose_port_pair_groups_args\<close>, which no module
  defines (the function is \<open>_compose_port_pair_group_args\<close>), and would then call
  \<open>cloud.update_sfc_port_pair\<close>.
\<close>

definition ppg_update_call :: "cloud \<Rightarrow> obj \<Rightarrow> pydict \<Rightarrow> (obj \<times> bool) run" where
  "ppg_update_call c ob ppg_kwargs =
     bnd (update_sfc_port_pair c (obj_id ob) ppg_kwargs) (\<lambda>updated. ret (updated, True))"

definition ppg_present :: "ppg_module \<Rightarrow> cloud \<Rightarrow> obj option \<Rightarrow> unit run" where
  "ppg_present m c ppg =
     bnd (ppg_port_pairs_get_ids m c True) (\<lambda>port_pairs_ids.
     bnd (case ppg of
            None \<Rightarrow>
              bnd (create_sfc_port_pair_group c
                     (ppg_compose_port_pair_group_args m port_pairs_ids))
                (\<lambda>created. ret (created, True))
          | Some ob \<Rightarrow>
              bnd (lift (ppg_needs_update m ob port_pairs_ids)) (\<lambda>needs.
              if needs
              then bnd (throw (Raise (NameError ''_compose_port_pair_groups_args'')))
                     (ppg_update_call c ob)
              else ret (ob, False))) (\<lambda>(ppg', changed).
     exit_json changed (Some ppg')))"

definition ppg_absent :: "cloud \<Rightarrow> obj option \<Rightarrow> unit run" where
  "ppg_absent c ppg =
     bnd (case ppg of
            None \<Rightarrow> ret False
          | Some ob \<Rightarrow> bnd (delete_sfc_port_pair_group c (obj_id ob)) (\<lambda>u. ret True))
       (\<lambda>changed.
     exit_json changed None)"

definition ppg_main :: "ppg_module \<Rightarrow> cloud \<Rightarrow> unit run" where
  "ppg_main m c =
     try_except
       (bnd (current (ppg_name m) (get_sfc_port_pair_group c)) (\<lambda>ppg.
        bnd (if ppg_check_mode m then
               bnd (ppg_port_pairs_get_ids m c False) (\<lambda>port_pairs_ids.
               bnd (lift (ppg_system_state_change m ppg port_pairs_ids)) (\<lambda>changed.
               exit_json changed None))
             else ret ()) (\<lambda>u.
        case ppg_state m of
          Present \<Rightarrow> ppg_present m c ppg
        | Absent \<Rightarrow> ppg_absent c ppg)))"

section \<open>os_sfc_port_chain\<close>

record pc_module =
  pc_name :: "string option"
  pc_port_pair_groups :: "string list option"
  pc_flow_classifiers :: "string list option"
  pc_chain_parameters :: "pydict option"
  pc_chain_id :: "string option"
  pc_state :: target
  pc_check_mode :: bool

definition pc_params :: "pc_module \<Rightarrow> string \<Rightarrow> pyval" where
  "pc_params m key =
     (if key = ''name'' then opt_str (pc_name m)
      else if key = ''port_pair_groups'' then opt_list (pc_port_pair_groups m)
      else if key = ''flow_classifiers'' then opt_list (pc_flow_classifiers m)
      else if key = ''chain_parameters'' then opt_dict (pc_chain_parameters m)
      else if key = ''chain_id'' then opt_str (pc_chain_id m)
      else PNone)"

text \<open>
  The three loops of \<open>_needs_update\<close> share the local variable \<open>value\<close>, which the
  third loop reads without assigning it; it is passed along, \<open>None\<close> while unassigned.
\<close>

fun pc_compare_simple ::
  "(string \<Rightarrow> pyval) \<Rightarrow> obj \<Rightarrow> pydict option \<Rightarrow> string list \<Rightarrow> pyval option
     \<Rightarrow> pyexn + bool \<times> pyval option" where
  "pc_compare_simple params pc pc_ids [] val = Inr (False, val)"
| "pc_compare_simple params pc pc_ids (key # keys) val =
     (case dict_get pc_ids key (getitem pc key) of
        Inl e \<Rightarrow> Inl e
      | Inr v \<Rightarrow>
          if params key \<noteq> PNone \<and> params key \<noteq> v then Inr (True, Some v)
          else pc_compare_simple params pc pc_ids keys (Some v))"

text \<open>
  \<open>if module.params[key] is not None and (set(module.param[key]) != set(value))\<close>: the
  module object has no attribute \<open>param\<close>, so the right operand raises as soon as it is
  evaluated.
\<close>

fun pc_compare_list ::
  "(string \<Rightarrow> pyval) \<Rightarrow> obj \<Rightarrow> pydict option \<Rightarrow> string list \<Rightarrow> pyval option
     \<Rightarrow> pyexn + bool \<times> pyval option" where
  "pc_compare_list params pc pc_ids [] val = Inr (False, val)"
| "pc_compare_list params pc pc_ids (key # keys) val =
     (case dict_get pc_ids key (getitem pc key) of
        Inl e \<Rightarrow> Inl e
      | Inr v \<Rightarrow>
          if params key \<noteq> PNone then Inl (AttributeError ''param'')
          else pc_compare_list params pc pc_ids keys (Some v))"

text \<open>\<open>if module.params[key] is not None and module.params[key] != value: return True\<close>\<close>

fun pc_compare_dict :: "(string \<Rightarrow> pyval) \<Rightarrow> string list \<Rightarrow> pyval option \<Rightarrow> pyexn + bool" where
  "pc_compare_dict params [] val = Inr False"
| "pc_compare_dict params (key # keys) val =
     (if params key \<noteq> PNone then
        (case val of
           None \<Rightarrow> Inl (NameError ''value'')
         | Some v \<Rightarrow> if params key \<noteq> v then Inr True else pc_compare_dict params keys val)
      else pc_compare_dict params keys val)"

definition pc_needs_update :: "pc_module \<Rightarrow> obj \<Rightarrow> pydict option \<Rightarrow> pyexn + bool" where
  "pc_needs_update m pc pc_ids =
     (case pc_compare_simple (pc_params m) pc pc_ids [''chain_id''] None of
        Inl e \<Rightarrow> Inl e
      | Inr (True, val) \<Rightarrow> Inr True
      | Inr (False, val) \<Rightarrow>
          (case pc_compare_list (pc_params m) pc pc_ids
                  [''port_pair_groups'', ''flow_classifiers''] val of
             Inl e \<Rightarrow> Inl e
           | Inr (True, val') \<Rightarrow> Inr True
           | Inr (False, val') \<Rightarrow> pc_compare_dict (pc_params m) [''chain_parameters''] val'))"

definition pc_system_state_change ::
  "pc_module \<Rightarrow> obj option \<Rightarrow> pydict option \<Rightarrow> pyexn + bool" where
  "pc_system_state_change m pc pc_ids =
     (case pc_state m of
        Present \<Rightarrow> (case pc of None \<Rightarrow> Inr True | Some ob \<Rightarrow> pc_needs_update m ob pc_ids)
      | Absent \<Rightarrow> Inr (pc \<noteq> None))"

text \<open>
  \<open>if module.params[p] is not None: pc_kwargs[p] = pc_ids.get(p, module.params[p])\<close>
\<close>

fun pc_compose_loop ::
  "(string \<Rightarrow> pyval) \<Rightarrow> pydict option \<Rightarrow> string list \<Rightarrow> pydict \<Rightarrow> pyexn + pydict" where
  "pc_compose_loop params pc_ids [] kw = Inr kw"
| "pc_compose_loop params pc_ids (k # ks) kw =
     (if params k \<noteq> PNone then
        (case dict_get pc_ids k (Inr (params k)) of
           Inl e \<Rightarrow> Inl e
         | Inr v \<Rightarrow> pc_compose_loop params pc_ids ks (fmupd k v kw))
      else pc_compose_loop params pc_ids ks kw)"

definition pc_compose_port_chain_args :: "pc_module \<Rightarrow> pydict option \<Rightarrow> pyexn + pydict" where
  "pc_compose_port_chain_args m pc_ids =
     pc_compose_loop (pc_params m) pc_ids
       [''name'', ''port_pair_groups'', ''flow_classifiers'', ''chain_parameters'', ''chain_id'']
       fmempty"

text \<open>
  The two loops of \<open>_port_chains_get_ids\<close>, over the port pair groups and over the flow
  classifiers; they differ in the lookup only (the message is the same in both).
  \<open>None\<close> is the early \<open>return None\<close>.
\<close>

fun pc_resolve ::
  "(string \<Rightarrow> obj option run) \<Rightarrow> bool \<Rightarrow> string list \<Rightarrow> string list \<Rightarrow> string list option run"
  where
  "pc_resolve getter fail_on_error [] ids = ret (Some ids)"
| "pc_resolve getter fail_on_error (n # rest) ids =
     bnd (getter n) (\<lambda>found.
       case found of
         None \<Rightarrow>
           if fail_on_error
           then fail_json (''Specified port pair group `'' @ n @ ''' wat not found.'')
           else ret None
       | Some ob \<Rightarrow> pc_resolve getter fail_on_error rest (ids @ [obj_id ob]))"

definition pc_required :: "bool \<Rightarrow> string \<Rightarrow> pydict option run" where
  "pc_required fail_on_error msg = (if fail_on_error then fail_json msg else ret None)"

definition names_of :: "string list option \<Rightarrow> string list" where
  "names_of p = (case p of None \<Rightarrow> [] | Some ns \<Rightarrow> ns)"

definition pc_port_chains_get_ids :: "pc_module \<Rightarrow> cloud \<Rightarrow> bool \<Rightarrow> pydict option run" where
  "pc_port_chains_get_ids m c fail_on_error =
     (if \<not> truthy (pc_port_pair_groups m)
      then pc_required fail_on_error
             ''Parameter 'port_pair_groups' is required in Sfc Port Chain Create''
      else
        bnd (pc_resolve (get_sfc_port_pair_group c) fail_on_error
               (names_of (pc_port_pair_groups m)) []) (\<lambda>ppgs.
        case ppgs of
          None \<Rightarrow> ret None
        | Some ppg_ids \<Rightarrow>
            if \<not> truthy (pc_flow_classifiers m)
            then pc_required fail_on_error
                   ''Parameter 'flow_classifiers' is required in Sfc Port Chain Create''
            else
              bnd (pc_resolve (get_sfc_flow_classifier c) fail_on_error
                     (names_of (pc_flow_classifiers m)) []) (\<lambda>fcs.
              case fcs of
                None \<Rightarrow> ret None
              | Some fc_ids \<Rightarrow>
                  ret (Some (fmupd ''flow_classifiers'' (PList (map PStr fc_ids))
                              (fmupd ''port_pair_groups'' (PList (map PStr ppg_ids))
                                 fmempty))))))"

definition pc_present :: "pc_module \<Rightarrow> cloud \<Rightarrow> obj option \<Rightarrow> unit run" where
  "pc_present m c pc =
     bnd (pc_port_chains_get_ids m c True) (\<lambda>pc_ids.
     bnd (case pc of
            None \<Rightarrow>
              bnd (lift (pc_compose_port_chain_args m pc_ids)) (\<lambda>pc_kwargs.
              bnd (create_sfc_port_chain c pc_kwargs) (\<lambda>created. ret (created, True)))
          | Some ob \<Rightarrow>
              bnd (lift (pc_needs_update m ob pc_ids)) (\<lambda>needs.
              if needs
              then bnd (lift (pc_compose_port_chain_args m pc_ids)) (\<lambda>pc_kwargs.
                   bnd (update_sfc_port_chain c (obj_id ob) pc_kwargs) (\<lambda>updated.
                   ret (updated, True)))
              else ret (ob, False))) (\<lambda>(pc', changed).
     exit_json changed (Some pc')))"

definition pc_absent :: "cloud \<Rightarrow> obj option \<Rightarrow> unit run" where
  "pc_absent c pc =
     bnd (case pc of
            None \<Rightarrow> ret False
          | Some ob \<Rightarrow> bnd (delete_sfc_port_chain c (obj_id ob)) (\<lambda>u. ret True)) (\<lambda>changed.
     exit_json changed None)"

definition pc_main :: "pc_module \<Rightarrow> cloud \<Rightarrow> unit run" where
  "pc_main m c =
     try_except
       (bnd (current (pc_name m) (get_sfc_port_chain c)) (\<lambda>pc.
        bnd (if pc_check_mode m then
               bnd (pc_port_chains_get_ids m c False) (\<lambda>pc_ids.
               bnd (lift (pc_system_state_change m pc pc_ids)) (\<lambda>changed.
               exit_json changed None))
             else ret ()) (\<lambda>u.
        case pc_state m of
          Present \<Rightarrow> pc_present m c pc
        | Absent \<Rightarrow> pc_absent c pc)))"

section \<open>Properties of runs\<close>

text \<open>
  A computation is quiet when it adds no mutating call to the trace, single when it adds at
  most one; it aborts when it never returns to its caller; \<open>ends P\<close> says that every way
  it ends abruptly satisfies \<open>P\<close>.
\<close>

definition quiet :: "'a run \<Rightarrow> bool" where
  "quiet m \<longleftrightarrow> (\<forall>t. \<exists>cs. snd (m t) = t @ cs \<and> filter mutating cs = [])"

definition single :: "'a run \<Rightarrow> bool" where
  "single m \<longleftrightarrow> (\<forall>t. \<exists>cs. snd (m t) = t @ cs \<and> length (filter mutating cs) \<le> 1)"

definition aborts :: "'a run \<Rightarrow> bool" where
  "aborts m \<longleftrightarrow> (\<forall>t. \<exists>a. fst (m t) = Inl a)"

definition ends :: "(abrupt \<Rightarrow> bool) \<Rightarrow> 'a run \<Rightarrow> bool" where
  "ends P m \<longleftrightarrow> (\<forall>t a. fst (m t) = Inl a \<longrightarrow> P a)"

text \<open>What a run reports through \<open>exit_json\<close> besides the changed flag.\<close>

fun no_object :: "abrupt \<Rightarrow> bool" where
  "no_object (ExitJson changed res) = (res = None)"
| "no_object (FailJson msg) = True"
| "no_object (Raise e) = True"

section \<open>A remote store to run the modules on\<close>

text \<open>
  A store that holds the given objects under their kind and name, answers every lookup from
  them, and accepts every mutation: a created object gets the payload as its fields.
\<close>

definition store :: "((kind \<times> string) \<times> obj) list \<Rightarrow> cloud" where
  "store w =
     \<lparr>lookup = (\<lambda>k n. Inr (map_of w (k, n))),
      create = (\<lambda>k kw. Inr \<lparr>obj_id = ''new-id'', obj_fields = kw\<rparr>),
      update = (\<lambda>k i kw. Inr \<lparr>obj_id = i, obj_fields = kw\<rparr>),
      delete = (\<lambda>k i. Inr ())\<rparr>"

definition port1 :: "(kind \<times> string) \<times> obj" where
  "port1 = ((Port, ''port1''), \<lparr>obj_id = ''id-port1'', obj_fields = fmempty\<rparr>)"

definition port2 :: "(kind \<times> string) \<times> obj" where
  "port2 = ((Port, ''port2''), \<lparr>obj_id = ''id-port2'', obj_fields = fmempty\<rparr>)"

text \<open>Parameters to run the modules with.\<close>

definition pp_base :: pp_module where
  "pp_base = \<lparr>pp_name = Some ''pp1'', pp_ingress = Some ''port1'', pp_egress = Some ''port2'',
     pp_service_function_parameters = None, pp_state = Present, pp_check_mode = False\<rparr>"

definition fc_base :: fc_module where
  "fc_base = \<lparr>fc_name = Some ''fc1'', fc_ethertype = Some ''IPv6'', fc_protocol = None,
     fc_source_port_range_min = None, fc_source_port_range_max = None,
     fc_destination_port_range_min = None, fc_destination_port_range_max = None,
     fc_source_ip_prefix = None, fc_destination_ip_prefix = None,
     fc_logical_source_port = None, fc_logical_destination_port = None,
     fc_l7_parameters = None, fc_state = Present, fc_check_mode = False\<rparr>"

definition ppg_base :: ppg_module where
  "ppg_base = \<lparr>ppg_name = Some ''ppg1'', ppg_port_pairs = Some [''pp1'', ''pp2''],
     ppg_port_pair_group_parameters = None, ppg_state = Present, ppg_check_mode = False\<rparr>"

definition pc_base :: pc_module where
  "pc_base = \<lparr>pc_name = Some ''pc1'', pc_port_pair_groups = Some [''ppg1'', ''ppg2''],
     pc_flow_classifiers = Some [''fc1''],
     pc_chain_parameters = Some (fmupd ''correlation'' (PStr ''mpls'') fmempty),
     pc_chain_id = Some ''1'', pc_state = Present, pc_check_mode = False\<rparr>"

section \<open>What the lookups of a run answer\<close>

text \<open>
  The lookup of the current object does not raise; the object it yields and the calls it
  makes; a referenced resource is found by the store, and under which ID.
\<close>

definition lookup_ok :: "cloud \<Rightarrow> kind \<Rightarrow> string option \<Rightarrow> bool" where
  "lookup_ok c k name =
     (case name of
        None \<Rightarrow> True
      | Some n \<Rightarrow> (case lookup c k n of Inl msg \<Rightarrow> n = [] | Inr r \<Rightarrow> True))"

definition cur_obj :: "cloud \<Rightarrow> kind \<Rightarrow> string option \<Rightarrow> obj option" where
  "cur_obj c k name =
     (case name of
        None \<Rightarrow> None
      | Some n \<Rightarrow> if n = [] then None
                  else (case lookup c k n of Inl msg \<Rightarrow> None | Inr r \<Rightarrow> r))"

definition cur_calls :: "kind \<Rightarrow> string option \<Rightarrow> call list" where
  "cur_calls k name = (case name of None \<Rightarrow> [] | Some n \<Rightarrow> if n = [] then [] else [Get k n])"

definition found :: "cloud \<Rightarrow> kind \<Rightarrow> string \<Rightarrow> bool" where
  "found c k n = (case lookup c k n of Inl msg \<Rightarrow> False | Inr r \<Rightarrow> r \<noteq> None)"

definition id_of :: "cloud \<Rightarrow> kind \<Rightarrow> string \<Rightarrow> string" where
  "id_of c k n = (case lookup c k n of Inr (Some ob) \<Rightarrow> obj_id ob | _ \<Rightarrow> [])"

text \<open>A run that fails through \<open>fail_json\<close>, or with an exception of the cloud.\<close>

fun is_failure :: "abrupt \<Rightarrow> bool" where
  "is_failure (FailJson msg) = True"
| "is_failure (Raise (OpenStackCloudException msg)) = True"
| "is_failure a = False"

fun is_fail_json :: "abrupt \<Rightarrow> bool" where
  "is_fail_json (FailJson msg) = True"
| "is_fail_json a = False"

definition pair1 :: "(kind \<times> string) \<times> obj" where
  "pair1 = ((PortPair, ''pp1''), \<lparr>obj_id = ''id-pp1'', obj_fields = fmempty\<rparr>)"

definition pair2 :: "(kind \<times> string) \<times> obj" where
  "pair2 = ((PortPair, ''pp2''), \<lparr>obj_id = ''id-pp2'', obj_fields = fmempty\<rparr>)"

definition group1 :: "(kind \<times> string) \<times> obj" where
  "group1 = ((PortPairGroup, ''ppg1''),
     \<lparr>obj_id = ''id-ppg1'',
      obj_fields = fmupd ''port_pairs'' (PList [PStr ''id-pp1''])
                     (fmupd ''name'' (PStr ''ppg1'') fmempty)\<rparr>)"

definition group2 :: "(kind \<times> string) \<times> obj" where
  "group2 = ((PortPairGroup, ''ppg2''),
     \<lparr>obj_id = ''id-ppg2'',
      obj_fields = fmupd ''port_pairs'' (PList [PStr ''id-pp1'', PStr ''id-pp2''])
                     (fmupd ''name'' (PStr ''ppg2'') fmempty)\<rparr>)"

text \<open>A port pair to be removed: only its name is given.\<close>

definition pp_remove :: pp_module where
  "pp_remove = \<lparr>pp_name = Some ''pp1'', pp_ingress = None, pp_egress = None,
     pp_service_function_parameters = None, pp_state = Absent, pp_check_mode = False\<rparr>"

text \<open>
  A flow classifier, and the port chain and port pair that a first run of \<open>pc_base\<close> and
  of \<open>pp_base\<close> creates in the store: their fields are the payload of the create call.
\<close>

definition classifier1 :: "(kind \<times> string) \<times> obj" where
  "classifier1 = ((FlowClassifier, ''fc1''),
     \<lparr>obj_id = ''id-fc1'',
      obj_fields = fmupd ''ethertype'' (PStr ''IPv4'') (fmupd ''name'' (PStr ''fc1'') fmempty)\<rparr>)"

definition chain_payload :: pydict where
  "chain_payload =
     fmupd ''chain_id'' (PStr ''1'')
       (fmupd ''chain_parameters'' (PDict (fmupd ''correlation'' (PStr ''mpls'') fmempty))
          (fmupd ''flow_classifiers'' (PList [PStr ''id-fc1''])
             (fmupd ''port_pair_groups'' (PList [PStr ''id-ppg1'', PStr ''id-ppg2''])
                (fmupd ''name'' (PStr ''pc1'') fmempty))))"

definition chain1 :: "(kind \<times> string) \<times> obj" where
  "chain1 = ((PortChain, ''pc1''), \<lparr>obj_id = ''new-id'', obj_fields = chain_payload\<rparr>)"

definition pair_payload :: pydict where
  "pair_payload =
     fmupd ''egress'' (PStr ''id-port2'')
       (fmupd ''ingress'' (PStr ''id-port1'')
          (fmupd ''egress'' (PStr ''port2'')
             (fmupd ''ingress'' (PStr ''port1'') (fmupd ''name'' (PStr ''pp1'') fmempty))))"

definition pair_created :: "(kind \<times> string) \<times> obj" where
  "pair_created = ((PortPair, ''pp1''), \<lparr>obj_id = ''new-id'', obj_fields = pair_payload\<rparr>)"

text \<open>The payload of an update of that port pair by \<open>pp_base\<close>.\<close>

definition pair_update :: pydict where
  "pair_update =
     fmupd ''egress'' (PStr ''port2'')
       (fmupd ''ingress'' (PStr ''port1'') (fmupd ''name'' (PStr ''pp1'') fmempty))"

text \<open>The IDs that the port pair groups and flow classifiers of \<open>pc_base\<close> resolve to.\<close>

definition chain_ids :: pydict where
  "chain_ids =
     fmupd ''flow_classifiers'' (PList [PStr ''id-fc1''])
       (fmupd ''port_pair_groups'' (PList [PStr ''id-ppg1'', PStr ''id-ppg2'']) fmempty)"

definition chain_ids_swapped :: pydict where
  "chain_ids_swapped =
     fmupd ''flow_classifiers'' (PList [PStr ''id-fc1''])
       (fmupd ''port_pair_groups'' (PList [PStr ''id-ppg2'', PStr ''id-ppg1'']) fmempty)"

section \<open>The payloads of the update calls\<close>

fun is_update :: "call \<Rightarrow> bool" where
  "is_update (Update k i kw) = True"
| "is_update (Get k n) = False"
| "is_update (Create k kw) = False"
| "is_update (Delete k i) = False"

fun update_payloads :: "call list \<Rightarrow> pydict list" where
  "update_payloads [] = []"
| "update_payloads (Update k i kw # cs) = kw # update_payloads cs"
| "update_payloads (Get k n # cs) = update_payloads cs"
| "update_payloads (Create k kw # cs) = update_payloads cs"
| "update_payloads (Delete k i # cs) = update_payloads cs"

text \<open>The entry of a payload under \<open>name\<close> when the \<open>name\<close> parameter is copied into it.\<close>

fun name_entry :: "string option \<Rightarrow> pyval option" where
  "name_entry None = None"
| "name_entry (Some n) = Some (PStr n)"

fun named :: "pyval option \<Rightarrow> call \<Rightarrow> bool" where
  "named e (Update k i kw) = (fmlookup kw ''name'' = e)"
| "named e (Get k n) = True"
| "named e (Create k kw) = True"
| "named e (Delete k i) = True"

fun no_update :: "call \<Rightarrow> bool" where
  "no_update cl = (\<not> is_update cl)"

text \<open>Every call that a computation adds to the trace satisfies \<open>P\<close>.\<close>

definition emits :: "(call \<Rightarrow> bool) \<Rightarrow> 'a run \<Rightarrow> bool" where
  "emits P m \<longleftrightarrow> (\<forall>t. \<exists>cs. snd (m t) = t @ cs \<and> list_all P cs)"

text \<open>A flow classifier of another ethertype than \<open>fc_base\<close> asks for.\<close>

definition fc_update :: pydict where
  "fc_update = fmupd ''ethertype'' (PStr ''IPv6'') (fmupd ''name'' (PStr ''fc1'') fmempty)"

text \<open>The payload of an update of \<open>chain1\<close> to another chain ID.\<close>

definition chain_update :: pydict where
  "chain_update =
     fmupd ''chain_id'' (PStr ''2'')
       (fmupd ''chain_parameters'' (PDict (fmupd ''correlation'' (PStr ''mpls'') fmempty))
          (fmupd ''flow_classifiers'' (PList [PStr ''id-fc1''])
             (fmupd ''port_pair_groups'' (PList [PStr ''id-ppg1'', PStr ''id-ppg2''])
                (fmupd ''name'' (PStr ''pc1'') fmempty))))"

section \<open>Laws of the computations\<close>

lemma bnd_ret [simp]: "bnd (ret x) f = f x"
  by (simp add: bnd_def ret_def)

lemma bnd_throw [simp]: "bnd (throw a) f = throw a"
  by (simp add: bnd_def throw_def)

lemma bnd_exit_json [simp]: "bnd (exit_json ch r) f = exit_json ch r"
  by (simp add: exit_json_def)

lemma bnd_fail_json [simp]: "bnd (fail_json msg) f = fail_json msg"
  by (simp add: fail_json_def)

lemma bnd_assoc: "bnd (bnd m f) g = bnd m (\<lambda>x. bnd (f x) g)"
  by (auto simp: bnd_def fun_eq_iff split: prod.splits sum.splits)

lemma bnd_remote_ok [simp]: "bnd (remote cl (Inr x)) f t = f x (t @ [cl])"
  by (simp add: bnd_def remote_def)

lemma bnd_remote_exn [simp]:
  "bnd (remote cl (Inl msg)) f t = (Inl (Raise (OpenStackCloudException msg)), t @ [cl])"
  by (simp add: bnd_def remote_def)

lemma try_except_snd: "snd (try_except m t) = snd (m t)"
  by (auto simp: try_except_def fail_json_def throw_def
      split: prod.splits sum.splits abrupt.splits pyexn.splits)

subsection \<open>Computations that issue no mutating call, or at most one\<close>

lemma quiet_ret [simp]: "quiet (ret x)"
  by (simp add: quiet_def ret_def)

lemma quiet_throw [simp]: "quiet (throw a)"
  by (simp add: quiet_def throw_def)

lemma quiet_exit_json [simp]: "quiet (exit_json ch r)"
  by (simp add: exit_json_def)

lemma quiet_fail_json [simp]: "quiet (fail_json msg)"
  by (simp add: fail_json_def)

lemma quiet_lift [simp]: "quiet (lift r)"
  by (cases r) (simp_all add: lift_def)

lemma quiet_get [simp]: "quiet (remote (Get k n) r)"
  by (simp add: quiet_def remote_def)

lemma quiet_bnd:
  assumes "quiet m" and "\<And>x. quiet (f x)"
  shows "quiet (bnd m f)"
  unfolding quiet_def
proof
  fix t
  from assms(1) obtain cs where m: "snd (m t) = t @ cs" "filter mutating cs = []"
    unfolding quiet_def by blast
  show "\<exists>cs. snd (bnd m f t) = t @ cs \<and> filter mutating cs = []"
  proof (cases "m t")
    case (Pair r t')
    with m have t': "t' = t @ cs" by simp
    show ?thesis
    proof (cases r)
      case (Inl a)
      with Pair m show ?thesis by (auto simp: bnd_def)
    next
      case (Inr x)
      from assms(2)[of x] obtain ds where "snd (f x t') = t' @ ds" "filter mutating ds = []"
        unfolding quiet_def by blast
      with Pair Inr t' m show ?thesis by (auto simp: bnd_def)
    qed
  qed
qed

lemma quiet_bnd_aborts:
  assumes "quiet m" and "aborts m"
  shows "quiet (bnd m f)"
  unfolding quiet_def
proof
  fix t
  from assms(1) obtain cs where m: "snd (m t) = t @ cs" "filter mutating cs = []"
    unfolding quiet_def by blast
  from assms(2) obtain a where "fst (m t) = Inl a" unfolding aborts_def by blast
  with m show "\<exists>cs. snd (bnd m f t) = t @ cs \<and> filter mutating cs = []"
    by (cases "m t") (auto simp: bnd_def)
qed

lemma quiet_try_except: "quiet m \<Longrightarrow> quiet (try_except m)"
  by (simp add: quiet_def try_except_snd)

lemma quiet_nil: "quiet m \<Longrightarrow> filter mutating (snd (m [])) = []"
  unfolding quiet_def
proof -
  assume "\<forall>t. \<exists>cs. snd (m t) = t @ cs \<and> filter mutating cs = []"
  then obtain cs where "snd (m []) = [] @ cs" "filter mutating cs = []" by blast
  then show ?thesis by simp
qed

lemma single_ret [simp]: "single (ret x)"
  by (simp add: single_def ret_def)

lemma single_throw [simp]: "single (throw a)"
  by (simp add: single_def throw_def)

lemma single_remote [simp]: "single (remote cl r)"
  by (simp add: single_def remote_def)

lemma quiet_single: "quiet m \<Longrightarrow> single m"
  unfolding quiet_def single_def
proof
  fix t
  assume "\<forall>t. \<exists>cs. snd (m t) = t @ cs \<and> filter mutating cs = []"
  then obtain cs where "snd (m t) = t @ cs" "filter mutating cs = []" by blast
  then show "\<exists>cs. snd (m t) = t @ cs \<and> length (filter mutating cs) \<le> 1" by auto
qed

lemma single_bnd_first:
  assumes "quiet m" and "\<And>x. single (f x)"
  shows "single (bnd m f)"
  unfolding single_def
proof
  fix t
  from assms(1) obtain cs where m: "snd (m t) = t @ cs" "filter mutating cs = []"
    unfolding quiet_def by blast
  show "\<exists>cs. snd (bnd m f t) = t @ cs \<and> length (filter mutating cs) \<le> 1"
  proof (cases "m t")
    case (Pair r t')
    with m have t': "t' = t @ cs" by simp
    show ?thesis
    proof (cases r)
      case (Inl a)
      with Pair m show ?thesis by (auto simp: bnd_def)
    next
      case (Inr x)
      from assms(2)[of x] obtain ds
        where "snd (f x t') = t' @ ds" "length (filter mutating ds) \<le> 1"
        unfolding single_def by blast
      with Pair Inr t' m show ?thesis by (auto simp: bnd_def)
    qed
  qed
qed

lemma single_bnd_rest:
  assumes "single m" and "\<And>x. quiet (f x)"
  shows "single (bnd m f)"
  unfolding single_def
proof
  fix t
  from assms(1) obtain cs where m: "snd (m t) = t @ cs" "length (filter mutating cs) \<le> 1"
    unfolding single_def by blast
  show "\<exists>cs. snd (bnd m f t) = t @ cs \<and> length (filter mutating cs) \<le> 1"
  proof (cases "m t")
    case (Pair r t')
    with m have t': "t' = t @ cs" by simp
    show ?thesis
    proof (cases r)
      case (Inl a)
      with Pair m show ?thesis by (auto simp: bnd_def)
    next
      case (Inr x)
      from assms(2)[of x] obtain ds where "snd (f x t') = t' @ ds" "filter mutating ds = []"
        unfolding quiet_def by blast
      with Pair Inr t' m show ?thesis by (auto simp: bnd_def)
    qed
  qed
qed

lemma single_bnd_lift: "(\<And>x. single (f x)) \<Longrightarrow> single (bnd (lift r) f)"
  by (rule single_bnd_first) simp_all

lemma single_bnd_remote: "(\<And>x. quiet (f x)) \<Longrightarrow> single (bnd (remote cl r) f)"
  by (rule single_bnd_rest) simp_all

lemma single_try_except: "single m \<Longrightarrow> single (try_except m)"
  by (simp add: single_def try_except_snd)

lemma single_nil: "single m \<Longrightarrow> length (filter mutating (snd (m []))) \<le> 1"
  unfolding single_def
proof -
  assume "\<forall>t. \<exists>cs. snd (m t) = t @ cs \<and> length (filter mutating cs) \<le> 1"
  then obtain cs where "snd (m []) = [] @ cs" "length (filter mutating cs) \<le> 1" by blast
  then show ?thesis by simp
qed

lemma aborts_throw [simp]: "aborts (throw a)"
  by (simp add: aborts_def throw_def)

lemma aborts_exit_json [simp]: "aborts (exit_json ch r)"
  by (simp add: exit_json_def)

lemma aborts_bnd: "(\<And>x. aborts (f x)) \<Longrightarrow> aborts (bnd m f)"
  unfolding aborts_def bnd_def
  by (auto split: prod.splits sum.splits)

lemma ends_ret [simp]: "ends P (ret x)"
  by (simp add: ends_def ret_def)

lemma ends_throw [simp]: "ends P (throw a) = P a"
  by (simp add: ends_def throw_def)

lemma ends_lift: "(\<And>e. P (Raise e)) \<Longrightarrow> ends P (lift r)"
  by (cases r) (simp_all add: lift_def)

lemma ends_remote: "(\<And>msg. P (Raise (OpenStackCloudException msg))) \<Longrightarrow> ends P (remote cl r)"
  by (cases r) (simp_all add: ends_def remote_def)

lemma ends_bnd:
  assumes "ends P m" and "\<And>x. ends P (f x)"
  shows "ends P (bnd m f)"
  using assms unfolding ends_def bnd_def
  by (auto split: prod.splits sum.splits) (metis fst_conv)+

lemma ends_try_except:
  assumes "ends P m" and "\<And>msg. P (FailJson msg)"
  shows "ends P (try_except m)"
  using assms unfolding ends_def try_except_def fail_json_def throw_def
  by (auto split: prod.splits sum.splits abrupt.splits pyexn.splits) (metis fst_conv)+

subsection \<open>The lookups issue no mutating call\<close>

lemmas getters =
  get_port_def get_sfc_flow_classifier_def get_sfc_port_pair_def get_sfc_port_pair_group_def
  get_sfc_port_chain_def

lemmas mutators =
  create_sfc_flow_classifier_def create_sfc_port_pair_def create_sfc_port_pair_group_def
  create_sfc_port_chain_def update_sfc_flow_classifier_def update_sfc_port_pair_def
  update_sfc_port_chain_def delete_sfc_flow_classifier_def delete_sfc_port_pair_def
  delete_sfc_port_pair_group_def delete_sfc_port_chain_def

lemma quiet_current: "(\<And>n. quiet (getter n)) \<Longrightarrow> quiet (current name getter)"
  by (simp add: current_def split: option.splits)

lemma quiet_getters [simp]:
  "quiet (get_port c n)" "quiet (get_sfc_flow_classifier c n)" "quiet (get_sfc_port_pair c n)"
  "quiet (get_sfc_port_pair_group c n)" "quiet (get_sfc_port_chain c n)"
  by (simp_all add: getters)

lemma quiet_pp_ports_get_ids [simp]: "quiet (pp_ports_get_ids m c foe)"
  by (auto simp: pp_ports_get_ids_def pp_missing_def pp_resolve_ports_def
      split: option.splits intro!: quiet_bnd)

lemma quiet_fc_resolve_port [simp]: "quiet (fc_resolve_port c foe key msg port ids)"
  by (auto simp: fc_resolve_port_def split: option.splits intro!: quiet_bnd)

lemma quiet_fc_ports_get_ids [simp]: "quiet (fc_ports_get_ids m c foe)"
  by (auto simp: fc_ports_get_ids_def intro!: quiet_bnd)

lemma quiet_ppg_resolve [simp]: "quiet (ppg_resolve c foe names acc)"
  by (induction names arbitrary: acc) (auto split: option.splits intro!: quiet_bnd)

lemma quiet_ppg_port_pairs_get_ids [simp]: "quiet (ppg_port_pairs_get_ids m c foe)"
  by (auto simp: ppg_port_pairs_get_ids_def split: option.splits intro!: quiet_bnd)

lemma quiet_pc_resolve [simp]:
  "(\<And>n. quiet (getter n)) \<Longrightarrow> quiet (pc_resolve getter foe names acc)"
  by (induction names arbitrary: acc) (auto split: option.splits intro!: quiet_bnd)

lemma quiet_pc_port_chains_get_ids [simp]: "quiet (pc_port_chains_get_ids m c foe)"
  by (auto simp: pc_port_chains_get_ids_def pc_required_def split: option.splits
      intro!: quiet_bnd)

subsection \<open>Each branch of \<open>main\<close> issues at most one mutating call\<close>

lemma quiet_pair_exit [simp]: "quiet (case x of (ob, changed) \<Rightarrow> exit_json changed (Some ob))"
  by (simp split: prod.splits)

lemma single_pp_present: "single (pp_present m c pp)"
  unfolding pp_present_def
  by (rule single_bnd_first, simp, rule single_bnd_rest)
     (auto simp: mutators split: option.splits intro!: single_bnd_lift single_bnd_remote)

lemma single_fc_present: "single (fc_present m c fc)"
  unfolding fc_present_def
  by (rule single_bnd_first, simp, rule single_bnd_rest)
     (auto simp: mutators split: option.splits intro!: single_bnd_lift single_bnd_remote)

lemma single_ppg_present: "single (ppg_present m c ppg)"
  unfolding ppg_present_def
  by (rule single_bnd_first, simp, rule single_bnd_rest)
     (auto simp: mutators split: option.splits intro!: single_bnd_lift single_bnd_remote)

lemma single_pc_present: "single (pc_present m c pc)"
  unfolding pc_present_def
  by (rule single_bnd_first, simp, rule single_bnd_rest)
     (auto simp: mutators split: option.splits intro!: single_bnd_lift single_bnd_remote)

lemma single_absent_shape:
  "single (bnd (case ob of None \<Rightarrow> ret False
                | Some x \<Rightarrow> bnd (remote (cl x) (r x)) (\<lambda>u. ret True))
             (\<lambda>changed. exit_json changed None))"
  by (rule single_bnd_rest) (auto split: option.splits intro!: single_bnd_remote)

lemma single_pp_absent: "single (pp_absent c ob)"
  unfolding pp_absent_def mutators by (rule single_absent_shape)

lemma single_fc_absent: "single (fc_absent c ob)"
  unfolding fc_absent_def mutators by (rule single_absent_shape)

lemma single_ppg_absent: "single (ppg_absent c ob)"
  unfolding ppg_absent_def mutators by (rule single_absent_shape)

lemma single_pc_absent: "single (pc_absent c ob)"
  unfolding pc_absent_def mutators by (rule single_absent_shape)

text \<open>The shape shared by the four \<open>main\<close> functions.\<close>

lemma single_main_shape:
  assumes "quiet cur" and "\<And>ob. quiet (chk ob)" and "\<And>ob. aborts (chk ob)"
    and "\<And>ob. single (rest ob)"
  shows "single (try_except (bnd cur (\<lambda>ob. bnd (if b then chk ob else ret ()) (\<lambda>u. rest ob))))"
proof (rule single_try_except, rule single_bnd_first [OF assms(1)])
  fix ob
  show "single (bnd (if b then chk ob else ret ()) (\<lambda>u. rest ob))"
  proof (cases b)
    case True
    then show ?thesis
      using quiet_single [OF quiet_bnd_aborts [OF assms(2) assms(3)]] by simp
  next
    case False
    then show ?thesis using assms(4) by simp
  qed
qed

lemma quiet_main_shape:
  assumes "quiet cur" and "\<And>ob. quiet (chk ob)" and "\<And>ob. aborts (chk ob)"
  shows "quiet (try_except (bnd cur (\<lambda>ob. bnd (if True then chk ob else ret ()) (\<lambda>u. rest ob))))"
  by (rule quiet_try_except, rule quiet_bnd [OF assms(1)])
     (simp add: quiet_bnd_aborts [OF assms(2) assms(3)])

lemma single_pp_main: "single (pp_main m c)"
  unfolding pp_main_def
  by (rule single_main_shape)
     (auto intro!: quiet_current quiet_bnd aborts_bnd single_pp_present single_pp_absent
        split: target.splits)

lemma single_fc_main: "single (fc_main m c)"
  unfolding fc_main_def
  by (rule single_main_shape)
     (auto intro!: quiet_current quiet_bnd aborts_bnd single_fc_present single_fc_absent
        split: target.splits)

lemma single_ppg_main: "single (ppg_main m c)"
  unfolding ppg_main_def
  by (rule single_main_shape)
     (auto intro!: quiet_current quiet_bnd aborts_bnd single_ppg_present single_ppg_absent
        split: target.splits)

lemma single_pc_main: "single (pc_main m c)"
  unfolding pc_main_def
  by (rule single_main_shape)
     (auto intro!: quiet_current quiet_bnd aborts_bnd single_pc_present single_pc_absent
        split: target.splits)

subsection \<open>Check mode\<close>


lemma ends_getters:
  "ends no_object (get_port c n)" "ends no_object (get_sfc_flow_classifier c n)"
  "ends no_object (get_sfc_port_pair c n)" "ends no_object (get_sfc_port_pair_group c n)"
  "ends no_object (get_sfc_port_chain c n)"
  by (simp_all add: getters ends_remote)

lemma ends_current: "(\<And>n. ends P (getter n)) \<Longrightarrow> ends P (current name getter)"
  by (simp add: current_def split: option.splits)

lemma ends_fail_json [simp]: "ends no_object (fail_json msg)"
  by (simp add: fail_json_def)

lemma ends_exit_none [simp]: "ends no_object (exit_json ch None)"
  by (simp add: exit_json_def)

lemma ends_pp_ports_get_ids: "ends no_object (pp_ports_get_ids m c foe)"
  by (auto simp: pp_ports_get_ids_def pp_missing_def pp_resolve_ports_def
      split: option.splits intro!: ends_bnd ends_getters)

lemma ends_fc_resolve_port: "ends no_object (fc_resolve_port c foe key msg port ids)"
  by (auto simp: fc_resolve_port_def split: option.splits intro!: ends_bnd ends_getters)

lemma ends_fc_ports_get_ids: "ends no_object (fc_ports_get_ids m c foe)"
  by (auto simp: fc_ports_get_ids_def intro!: ends_bnd ends_fc_resolve_port)

lemma ends_ppg_resolve: "ends no_object (ppg_resolve c foe names acc)"
  by (induction names arbitrary: acc) (auto split: option.splits intro!: ends_bnd ends_getters)

lemma ends_ppg_port_pairs_get_ids: "ends no_object (ppg_port_pairs_get_ids m c foe)"
  by (auto simp: ppg_port_pairs_get_ids_def split: option.splits
      intro!: ends_bnd ends_ppg_resolve)

lemma ends_pc_resolve:
  "(\<And>n. ends no_object (getter n)) \<Longrightarrow> ends no_object (pc_resolve getter foe names acc)"
  by (induction names arbitrary: acc) (auto split: option.splits intro!: ends_bnd)

lemma ends_pc_port_chains_get_ids: "ends no_object (pc_port_chains_get_ids m c foe)"
  by (auto simp: pc_port_chains_get_ids_def pc_required_def split: option.splits
      intro!: ends_bnd ends_pc_resolve ends_getters)

lemma ends_check:
  assumes "ends no_object cur" and "ends no_object ids"
  shows "ends no_object
    (try_except (bnd cur (\<lambda>ob. bnd ids (\<lambda>x. bnd (lift (ssc ob x))
       (\<lambda>changed. exit_json changed None)))))"
  by (intro ends_try_except ends_bnd assms ends_lift ends_exit_none) simp_all

lemma quiet_check:
  assumes "quiet cur" and "quiet ids"
  shows "quiet
    (try_except (bnd cur (\<lambda>ob. bnd ids (\<lambda>x. bnd (lift (ssc ob x))
       (\<lambda>changed. exit_json changed None)))))"
  by (intro quiet_try_except quiet_bnd assms quiet_lift quiet_exit_json)

lemma pp_main_check:
  "pp_check_mode m \<Longrightarrow> quiet (pp_main m c) \<and> ends no_object (pp_main m c)"
  unfolding pp_main_def
  by (simp add: bnd_assoc quiet_check ends_check quiet_current ends_current ends_getters
      ends_pp_ports_get_ids)

lemma fc_main_check:
  "fc_check_mode m \<Longrightarrow> quiet (fc_main m c) \<and> ends no_object (fc_main m c)"
  unfolding fc_main_def
  by (simp add: bnd_assoc quiet_check ends_check quiet_current ends_current ends_getters
      ends_fc_ports_get_ids)

lemma ppg_main_check:
  "ppg_check_mode m \<Longrightarrow> quiet (ppg_main m c) \<and> ends no_object (ppg_main m c)"
  unfolding ppg_main_def
  by (simp add: bnd_assoc quiet_check ends_check quiet_current ends_current ends_getters
      ends_ppg_port_pairs_get_ids)

lemma pc_main_check:
  "pc_check_mode m \<Longrightarrow> quiet (pc_main m c) \<and> ends no_object (pc_main m c)"
  unfolding pc_main_def
  by (simp add: bnd_assoc quiet_check ends_check quiet_current ends_current ends_getters
      ends_pc_port_chains_get_ids)


lemma ends_no_object_nil:
  "ends no_object m \<Longrightarrow> fst (m []) = Inl (ExitJson changed res) \<Longrightarrow> res = None"
  unfolding ends_def by fastforce

subsection \<open>Unfolding the modules on given inputs\<close>

lemmas monad_defs = bnd_def ret_def throw_def lift_def remote_def exit_json_def fail_json_def
  try_except_def current_def

lemmas python_defs = dict_item_def dict_get_def getitem_def names_of_def copy_if_in_def

lemmas pp_defs = pp_main_def pp_present_def pp_absent_def pp_ports_get_ids_def pp_missing_def
  pp_resolve_ports_def pp_system_state_change_def pp_needs_update_def
  pp_compose_port_pair_args_def pp_params_def

lemmas fc_defs = fc_main_def fc_present_def fc_absent_def fc_ports_get_ids_def
  fc_resolve_port_def fc_system_state_change_def fc_needs_update_def
  fc_compose_flow_classifier_args_def fc_params_def fc_compare_simple_def
  fc_optional_parameters_def

lemmas ppg_defs = ppg_main_def ppg_present_def ppg_absent_def ppg_port_pairs_get_ids_def
  ppg_system_state_change_def ppg_needs_update_def ppg_compose_port_pair_group_args_def
  ppg_params_def ppg_update_call_def

lemmas pc_defs = pc_main_def pc_present_def pc_absent_def pc_port_chains_get_ids_def
  pc_required_def pc_system_state_change_def pc_needs_update_def
  pc_compose_port_chain_args_def pc_params_def

lemmas world_defs = store_def port1_def port2_def

subsection \<open>Runs along a given path\<close>

lemma run_ret: "ret x t = (Inr x, t)"
  by (simp add: ret_def)

lemma run_throw: "throw a t = (Inl a, t)"
  by (simp add: throw_def)

lemma run_fail_json: "fail_json msg t = (Inl (FailJson msg), t)"
  by (simp add: fail_json_def throw_def)

lemma run_exit_json: "exit_json changed res t = (Inl (ExitJson changed res), t)"
  by (simp add: exit_json_def throw_def)

lemmas runs = run_ret run_throw run_fail_json run_exit_json

lemma lift_simps [simp]: "lift (Inr x) = ret x" "lift (Inl e) = throw (Raise e)"
  by (simp_all add: lift_def)

lemma bnd_run: "m t = (Inr x, t') \<Longrightarrow> bnd m f t = f x t'"
  by (simp add: bnd_def)

lemma getter_eta:
  "get_port c = (\<lambda>n. remote (Get Port n) (lookup c Port n))"
  "get_sfc_flow_classifier c = (\<lambda>n. remote (Get FlowClassifier n) (lookup c FlowClassifier n))"
  "get_sfc_port_pair c = (\<lambda>n. remote (Get PortPair n) (lookup c PortPair n))"
  "get_sfc_port_pair_group c = (\<lambda>n. remote (Get PortPairGroup n) (lookup c PortPairGroup n))"
  "get_sfc_port_chain c = (\<lambda>n. remote (Get PortChain n) (lookup c PortChain n))"
  by (simp_all add: getters fun_eq_iff)

lemma current_run:
  "lookup_ok c k name \<Longrightarrow>
   current name (\<lambda>n. remote (Get k n) (lookup c k n)) t
     = (Inr (cur_obj c k name), t @ cur_calls k name)"
  by (auto simp: lookup_ok_def current_def cur_obj_def cur_calls_def remote_def ret_def
      split: option.splits sum.splits)

lemma ppg_resolve_run:
  "list_all (found c PortPair) ns \<Longrightarrow>
   ppg_resolve c foe ns acc t = (Inr (acc @ map (id_of c PortPair) ns), t @ map (Get PortPair) ns)"
proof (induction ns arbitrary: acc t)
  case Nil
  then show ?case by (simp add: ret_def)
next
  case (Cons n ns)
  from Cons.prems obtain ob where ob: "lookup c PortPair n = Inr (Some ob)"
    by (auto simp: found_def split: sum.splits)
  from Cons.prems have rest: "list_all (found c PortPair) ns" by simp
  show ?case
    using Cons.IH [OF rest] ob
    by (simp add: get_sfc_port_pair_def id_of_def)
qed

lemma pc_resolve_run:
  "list_all (found c k) ns \<Longrightarrow>
   pc_resolve (\<lambda>n. remote (Get k n) (lookup c k n)) foe ns acc t
     = (Inr (Some (acc @ map (id_of c k) ns)), t @ map (Get k) ns)"
proof (induction ns arbitrary: acc t)
  case Nil
  then show ?case by (simp add: ret_def)
next
  case (Cons n ns)
  from Cons.prems obtain ob where ob: "lookup c k n = Inr (Some ob)"
    by (auto simp: found_def split: sum.splits)
  from Cons.prems have rest: "list_all (found c k) ns" by simp
  show ?case
    using Cons.IH [OF rest] ob
    by (simp add: id_of_def)
qed

lemma no_mutating_cur_calls [simp]: "filter mutating (cur_calls k name) = []"
  by (simp add: cur_calls_def split: option.splits)

lemma no_mutating_gets [simp]: "filter mutating (map (Get k) ns) = []"
  by (induction ns) simp_all

lemmas path_defs = lookup_ok_def found_def id_of_def cur_calls_def cur_obj_def

lemmas entries = port1_def port2_def pair1_def pair2_def group1_def group2_def

subsection \<open>A required list field that is missing\<close>

lemma pc_ppgs_missing:
  assumes "pc_state m = Present" "\<not> pc_check_mode m" "lookup_ok c PortChain (pc_name m)"
    and "\<not> truthy (pc_port_pair_groups m)"
  shows "pc_main m c [] =
    (Inl (FailJson ''Parameter 'port_pair_groups' is required in Sfc Port Chain Create''),
     cur_calls PortChain (pc_name m))"
  using assms
  apply (simp add: pc_main_def try_except_def getter_eta bnd_run [OF current_run] pc_present_def
      pc_port_chains_get_ids_def pc_required_def)
  apply (simp add: runs)?
  done

lemma pc_fcs_missing:
  assumes "pc_state m = Present" "\<not> pc_check_mode m" "lookup_ok c PortChain (pc_name m)"
    and "truthy (pc_port_pair_groups m)"
    and "list_all (found c PortPairGroup) (names_of (pc_port_pair_groups m))"
    and "\<not> truthy (pc_flow_classifiers m)"
  shows "pc_main m c [] =
    (Inl (FailJson ''Parameter 'flow_classifiers' is required in Sfc Port Chain Create''),
     cur_calls PortChain (pc_name m) @ map (Get PortPairGroup) (names_of (pc_port_pair_groups m)))"
  using assms
  apply (simp add: pc_main_def try_except_def getter_eta bnd_run [OF current_run] pc_present_def
      pc_port_chains_get_ids_def pc_required_def bnd_assoc bnd_run [OF pc_resolve_run])
  apply (simp add: runs)?
  done

lemma ppg_pps_missing:
  assumes "ppg_state m = Present" "\<not> ppg_check_mode m"
    and "lookup_ok c PortPairGroup (ppg_name m)"
    and "\<not> truthy (ppg_port_pairs m)"
  shows "ppg_main m c [] =
    (Inl (FailJson ''Parameter 'port_pairs' is required in Sfc Port Pair Group Create''),
     cur_calls PortPairGroup (ppg_name m))"
  using assms
  apply (cases "ppg_port_pairs m")
   apply (simp_all add: ppg_main_def try_except_def getter_eta bnd_run [OF current_run]
      ppg_present_def ppg_port_pairs_get_ids_def)
   apply (simp_all add: runs)?
  done

lemma aborts_fail_json [simp]: "aborts (fail_json msg)"
  by (simp add: fail_json_def)

lemma aborts_bnd_first: "aborts m \<Longrightarrow> aborts (bnd m f)"
  unfolding aborts_def bnd_def
proof
  fix t
  assume "\<forall>t. \<exists>a. fst (m t) = Inl a"
  then obtain a where "fst (m t) = Inl a" by blast
  then show "\<exists>a. fst (case m t of (Inl a, t') \<Rightarrow> (Inl a, t') | (Inr x, t') \<Rightarrow> f x t') = Inl a"
    by (cases "m t") auto
qed

lemma aborts_try_except: "aborts m \<Longrightarrow> aborts (try_except m)"
  unfolding aborts_def try_except_def
proof
  fix t
  assume "\<forall>t. \<exists>a. fst (m t) = Inl a"
  then obtain a where "fst (m t) = Inl a" by blast
  then show "\<exists>a. fst (case m t of
        (Inl (Raise (OpenStackCloudException msg)), t') \<Rightarrow> fail_json msg t'
      | r \<Rightarrow> r) = Inl a"
    by (cases "m t") (auto simp: run_fail_json split: abrupt.splits pyexn.splits)
qed

lemma ends_bnd_aborts:
  assumes "ends P m" and "aborts m"
  shows "ends P (bnd m f)"
  unfolding ends_def
proof (intro allI impI)
  fix t a
  assume a: "fst (bnd m f t) = Inl a"
  from assms(2) obtain b where b: "fst (m t) = Inl b" unfolding aborts_def by blast
  with a have "a = b" by (cases "m t") (auto simp: bnd_def)
  with b assms(1) show "P a" unfolding ends_def by blast
qed

lemma ends_failure_remote [simp]: "ends is_failure (remote cl r)"
  by (rule ends_remote) simp

lemma ends_failure_fail_json [simp]: "ends is_failure (fail_json msg)"
  by (simp add: fail_json_def)

lemma ends_failure_current:
  "ends is_failure (current name (\<lambda>n. remote (Get k n) (lookup c k n)))"
  by (rule ends_current) simp

lemma fails_try_except:
  assumes "ends is_failure m" and "aborts m"
  shows "\<exists>msg. fst (try_except m t) = Inl (FailJson msg)"
proof -
  from assms(2) obtain a where a: "fst (m t) = Inl a" unfolding aborts_def by blast
  with assms(1) have "is_failure a" unfolding ends_def by blast
  with a show ?thesis
    by (cases "m t"; cases a rule: is_failure.cases)
       (auto simp: try_except_def run_fail_json)
qed

text \<open>The shape of a run of \<open>main\<close> outside check mode, in the present state.\<close>

lemma present_fails:
  assumes "quiet ids" "aborts ids" "ends is_failure ids"
  shows "(\<exists>msg. fst (try_except (bnd (current name (\<lambda>n. remote (Get k n) (lookup c k n)))
            (\<lambda>ob. bnd ids (rest ob))) []) = Inl (FailJson msg)) \<and>
         filter mutating (snd (try_except (bnd (current name
            (\<lambda>n. remote (Get k n) (lookup c k n))) (\<lambda>ob. bnd ids (rest ob))) [])) = []"
proof
  let ?body = "bnd (current name (\<lambda>n. remote (Get k n) (lookup c k n)))
                 (\<lambda>ob. bnd ids (rest ob))"
  have ab: "aborts ?body"
    by (rule aborts_bnd) (rule aborts_bnd_first [OF assms(2)])
  have en: "ends is_failure ?body"
    by (rule ends_bnd [OF ends_failure_current]) (rule ends_bnd_aborts [OF assms(3) assms(2)])
  show "\<exists>msg. fst (try_except ?body []) = Inl (FailJson msg)"
    by (rule fails_try_except [OF en ab])
  have "quiet ?body"
    by (rule quiet_bnd) (simp_all add: quiet_current quiet_bnd_aborts [OF assms(1) assms(2)])
  then show "filter mutating (snd (try_except ?body [])) = []"
    by (intro quiet_nil quiet_try_except)
qed

lemma pc_resolve_some:
  "fst (pc_resolve g True ns acc t) = Inr x \<Longrightarrow> x \<noteq> None"
proof (induction ns arbitrary: acc t)
  case Nil
  then show ?case by (auto simp: run_ret)
next
  case (Cons n ns)
  then show ?case
    by (cases "g n t") (auto simp: bnd_def run_fail_json split: sum.splits option.splits)
qed

lemma ends_failure_pc_resolve:
  "(\<And>n. ends is_failure (g n)) \<Longrightarrow> ends is_failure (pc_resolve g True ns acc)"
  by (induction ns arbitrary: acc) (auto split: option.splits intro!: ends_bnd)

lemma ends_failure_pc_get_ids: "ends is_failure (pc_port_chains_get_ids m c True)"
  by (auto simp: pc_port_chains_get_ids_def pc_required_def getter_eta split: option.splits
      intro!: ends_bnd ends_failure_pc_resolve)

lemma aborts_pc_get_ids:
  assumes "\<not> truthy (pc_port_pair_groups m) \<or> \<not> truthy (pc_flow_classifiers m)"
  shows "aborts (pc_port_chains_get_ids m c True)"
proof (cases "truthy (pc_port_pair_groups m)")
  case False
  then show ?thesis by (simp add: pc_port_chains_get_ids_def pc_required_def)
next
  case True
  with assms have fcs: "\<not> truthy (pc_flow_classifiers m)" by simp
  show ?thesis
    unfolding aborts_def
  proof
    fix t
    let ?r = "pc_resolve (get_sfc_port_pair_group c) True (names_of (pc_port_pair_groups m)) []"
    show "\<exists>a. fst (pc_port_chains_get_ids m c True t) = Inl a"
    proof (cases "?r t")
      case (Pair r t')
      show ?thesis
      proof (cases r)
        case (Inl a)
        with Pair True show ?thesis
          by (simp add: pc_port_chains_get_ids_def bnd_def)
      next
        case (Inr x)
        with Pair have "fst (?r t) = Inr x" by simp
        then have "x \<noteq> None" by (rule pc_resolve_some)
        then obtain ids where "x = Some ids" by auto
        with Pair Inr True fcs show ?thesis
          by (simp add: pc_port_chains_get_ids_def bnd_def pc_required_def run_fail_json)
      qed
    qed
  qed
qed

lemma ends_failure_ppg_resolve: "ends is_failure (ppg_resolve c True ns acc)"
  by (induction ns arbitrary: acc) (auto simp: getter_eta split: option.splits intro!: ends_bnd)

lemma ends_failure_ppg_get_ids: "ends is_failure (ppg_port_pairs_get_ids m c True)"
  by (auto simp: ppg_port_pairs_get_ids_def split: option.splits
      intro!: ends_bnd ends_failure_ppg_resolve)

lemma aborts_ppg_get_ids:
  "\<not> truthy (ppg_port_pairs m) \<Longrightarrow> aborts (ppg_port_pairs_get_ids m c True)"
  by (cases "ppg_port_pairs m") (simp_all add: ppg_port_pairs_get_ids_def)

lemma pc_missing_fails:
  assumes "pc_state m = Present" "\<not> pc_check_mode m"
    and "\<not> truthy (pc_port_pair_groups m) \<or> \<not> truthy (pc_flow_classifiers m)"
  shows "(\<exists>msg. fst (pc_main m c []) = Inl (FailJson msg)) \<and>
         filter mutating (snd (pc_main m c [])) = []"
  unfolding pc_main_def pc_present_def getter_eta
  using assms(1,2)
  apply simp
  apply (rule present_fails [OF quiet_pc_port_chains_get_ids aborts_pc_get_ids [OF assms(3)]
      ends_failure_pc_get_ids])
  done

lemma ppg_missing_fails:
  assumes "ppg_state m = Present" "\<not> ppg_check_mode m" "\<not> truthy (ppg_port_pairs m)"
  shows "(\<exists>msg. fst (ppg_main m c []) = Inl (FailJson msg)) \<and>
         filter mutating (snd (ppg_main m c [])) = []"
  unfolding ppg_main_def ppg_present_def getter_eta
  using assms(1,2)
  apply simp
  apply (rule present_fails [OF quiet_ppg_port_pairs_get_ids aborts_ppg_get_ids [OF assms(3)]
      ends_failure_ppg_get_ids])
  done

subsection \<open>A reference that does not resolve\<close>

lemma pp_ingress_unresolved:
  assumes "pp_state m = Present" "\<not> pp_check_mode m" "lookup_ok c PortPair (pp_name m)"
    and "pp_ingress m = Some i" "i \<noteq> []" "pp_egress m = Some e" "e \<noteq> []"
    and "lookup c Port i = Inr None"
  shows "pp_main m c [] =
    (Inl (FailJson ''Specified ingress port was not found.''),
     cur_calls PortPair (pp_name m) @ [Get Port i])"
  using assms
  apply (simp add: pp_main_def try_except_def getter_eta bnd_run [OF current_run] pp_present_def
      pp_ports_get_ids_def pp_resolve_ports_def bnd_assoc)
  apply (simp add: runs)?
  done

lemma pp_egress_unresolved:
  assumes "pp_state m = Present" "\<not> pp_check_mode m" "lookup_ok c PortPair (pp_name m)"
    and "pp_ingress m = Some i" "i \<noteq> []" "pp_egress m = Some e" "e \<noteq> []"
    and "found c Port i" "lookup c Port e = Inr None"
  shows "pp_main m c [] =
    (Inl (FailJson ''Specified egress port was not found.''),
     cur_calls PortPair (pp_name m) @ [Get Port i, Get Port e])"
proof -
  from assms(8) obtain p where "lookup c Port i = Inr (Some p)"
    by (auto simp: found_def split: sum.splits)
  with assms show ?thesis
    apply (simp add: pp_main_def try_except_def getter_eta bnd_run [OF current_run]
        pp_present_def pp_ports_get_ids_def pp_resolve_ports_def bnd_assoc)
    apply (simp add: runs)?
    done
qed

lemma ends_failure_pp_get_ids: "ends is_failure (pp_ports_get_ids m c True)"
  by (auto simp: pp_ports_get_ids_def pp_missing_def pp_resolve_ports_def getter_eta
      split: option.splits intro!: ends_bnd)

lemma aborts_pp_get_ids:
  assumes "pp_ingress m = Some i" "lookup c Port i = Inr None"
  shows "aborts (pp_ports_get_ids m c True)"
  using assms
  by (auto simp: aborts_def pp_ports_get_ids_def pp_missing_def pp_resolve_ports_def getter_eta
      runs split: option.splits)

lemma pp_unresolved_fails:
  assumes "pp_state m = Present" "\<not> pp_check_mode m"
    and "pp_ingress m = Some i" "lookup c Port i = Inr None"
  shows "(\<exists>msg. fst (pp_main m c []) = Inl (FailJson msg)) \<and>
         filter mutating (snd (pp_main m c [])) = []"
  unfolding pp_main_def pp_present_def getter_eta
  using assms(1,2)
  apply simp
  apply (rule present_fails [OF quiet_pp_ports_get_ids aborts_pp_get_ids [OF assms(3,4)]
      ends_failure_pp_get_ids])
  done

lemma ppg_resolve_unresolved:
  "list_all (found c PortPair) xs \<Longrightarrow> lookup c PortPair n = Inr None \<Longrightarrow>
   ppg_resolve c True (xs @ n # ys) acc t =
     (Inl (FailJson (''Specified port pair `'' @ n @ ''' was not found.'')),
      t @ map (Get PortPair) xs @ [Get PortPair n])"
proof (induction xs arbitrary: acc t)
  case Nil
  then show ?case by (simp add: get_sfc_port_pair_def runs)
next
  case (Cons x xs)
  from Cons.prems obtain ob where ob: "lookup c PortPair x = Inr (Some ob)"
    by (auto simp: found_def split: sum.splits)
  from Cons.prems have rest: "list_all (found c PortPair) xs" by simp
  show ?case
    using Cons.IH [OF rest Cons.prems(2)] ob
    by (simp add: get_sfc_port_pair_def)
qed

lemma pc_resolve_unresolved:
  "list_all (found c k) xs \<Longrightarrow> lookup c k n = Inr None \<Longrightarrow>
   pc_resolve (\<lambda>n. remote (Get k n) (lookup c k n)) True (xs @ n # ys) acc t =
     (Inl (FailJson (''Specified port pair group `'' @ n @ ''' wat not found.'')),
      t @ map (Get k) xs @ [Get k n])"
proof (induction xs arbitrary: acc t)
  case Nil
  then show ?case by (simp add: runs)
next
  case (Cons x xs)
  from Cons.prems obtain ob where ob: "lookup c k x = Inr (Some ob)"
    by (auto simp: found_def split: sum.splits)
  from Cons.prems have rest: "list_all (found c k) xs" by simp
  show ?case
    using Cons.IH [OF rest Cons.prems(2)] ob
    by simp
qed

lemma bnd_stop: "m t = (Inl a, t') \<Longrightarrow> bnd m f t = (Inl a, t')"
  by (simp add: bnd_def)

lemma ppg_pair_unresolved:
  assumes "ppg_state m = Present" "\<not> ppg_check_mode m"
    and "lookup_ok c PortPairGroup (ppg_name m)"
    and "ppg_port_pairs m = Some (xs @ n # ys)"
    and "list_all (found c PortPair) xs" "lookup c PortPair n = Inr None"
  shows "ppg_main m c [] =
    (Inl (FailJson (''Specified port pair `'' @ n @ ''' was not found.'')),
     cur_calls PortPairGroup (ppg_name m) @ map (Get PortPair) xs @ [Get PortPair n])"
  using assms(1-4)
  apply (simp add: ppg_main_def try_except_def getter_eta bnd_run [OF current_run]
      ppg_present_def ppg_port_pairs_get_ids_def bnd_assoc
      bnd_stop [OF ppg_resolve_unresolved [OF assms(5,6)]])
  done

lemma pc_group_unresolved:
  assumes "pc_state m = Present" "\<not> pc_check_mode m"
    and "lookup_ok c PortChain (pc_name m)"
    and "pc_port_pair_groups m = Some (xs @ n # ys)"
    and "list_all (found c PortPairGroup) xs" "lookup c PortPairGroup n = Inr None"
  shows "pc_main m c [] =
    (Inl (FailJson (''Specified port pair group `'' @ n @ ''' wat not found.'')),
     cur_calls PortChain (pc_name m) @ map (Get PortPairGroup) xs @ [Get PortPairGroup n])"
  using assms(1-4)
  apply (simp add: pc_main_def try_except_def getter_eta bnd_run [OF current_run]
      pc_present_def pc_port_chains_get_ids_def names_of_def bnd_assoc
      bnd_stop [OF pc_resolve_unresolved [OF assms(5,6)]])
  done

lemma message_names_field:
  "sublist ''ingress'' ''Specified ingress port was not found.''"
  "sublist ''egress'' ''Specified egress port was not found.''"
  by code_simp+

lemma message_names_value:
  "sublist n (''Specified port pair `'' @ n @ ''' was not found.'')"
  "sublist n (''Specified port pair group `'' @ n @ ''' wat not found.'')"
  by (rule sublist_appendI)+

subsection \<open>The update branch of the port pair group module\<close>

lemma ppg_update_path:
  assumes "ppg_state m = Present" "\<not> ppg_check_mode m"
    and "ppg_name m = Some n" "n \<noteq> []" "lookup c PortPairGroup n = Inr (Some ob)"
    and "truthy (ppg_port_pairs m)"
    and "list_all (found c PortPair) (names_of (ppg_port_pairs m))"
    and "ppg_needs_update m ob (Some (map (id_of c PortPair) (names_of (ppg_port_pairs m))))
           = Inr True"
  shows "ppg_main m c [] =
    (Inl (Raise (NameError ''_compose_port_pair_groups_args'')),
     Get PortPairGroup n # map (Get PortPair) (names_of (ppg_port_pairs m)))"
proof -
  from assms(3-5) have ok: "lookup_ok c PortPairGroup (ppg_name m)"
    and cur: "cur_obj c PortPairGroup (ppg_name m) = Some ob"
    and calls: "cur_calls PortPairGroup (ppg_name m) = [Get PortPairGroup n]"
    by (simp_all add: path_defs)
  from assms(6) obtain ns where ns: "ppg_port_pairs m = Some ns" "ns \<noteq> []"
    by (cases "ppg_port_pairs m") auto
  with assms(7) have res: "list_all (found c PortPair) ns" by (simp add: names_of_def)
  show ?thesis
    using assms(1,2,8) cur calls ns
    apply (simp add: ppg_main_def try_except_def getter_eta bnd_run [OF current_run [OF ok]]
        ppg_present_def ppg_port_pairs_get_ids_def bnd_assoc
        bnd_run [OF ppg_resolve_run [OF res]] names_of_def)
    apply (simp add: runs)?
    done
qed

subsection \<open>What check mode computes\<close>

text \<open>
  In check mode a run is the lookup of the current object, the resolution of the
  references with \<open>fail_on_error\<close> off, and \<open>exit_json\<close> of what \<open>_system_state_change\<close>
  says: nothing of the rest of \<open>main\<close> is reached, and no mutating call is made.
\<close>

lemma pp_main_check_mode:
  "pp_check_mode m \<Longrightarrow>
   pp_main m c = try_except
     (bnd (current (pp_name m) (get_sfc_port_pair c)) (\<lambda>pp.
      bnd (pp_ports_get_ids m c False) (\<lambda>ports.
      bnd (lift (pp_system_state_change m pp ports)) (\<lambda>changed. exit_json changed None))))"
  by (simp add: pp_main_def bnd_assoc)

lemma fc_main_check_mode:
  "fc_check_mode m \<Longrightarrow>
   fc_main m c = try_except
     (bnd (current (fc_name m) (get_sfc_flow_classifier c)) (\<lambda>fc.
      bnd (fc_ports_get_ids m c False) (\<lambda>ports.
      bnd (lift (fc_system_state_change m fc ports)) (\<lambda>changed. exit_json changed None))))"
  by (simp add: fc_main_def bnd_assoc)

lemma ppg_main_check_mode:
  "ppg_check_mode m \<Longrightarrow>
   ppg_main m c = try_except
     (bnd (current (ppg_name m) (get_sfc_port_pair_group c)) (\<lambda>ppg.
      bnd (ppg_port_pairs_get_ids m c False) (\<lambda>ids.
      bnd (lift (ppg_system_state_change m ppg ids)) (\<lambda>changed. exit_json changed None))))"
  by (simp add: ppg_main_def bnd_assoc)

lemma pc_main_check_mode:
  "pc_check_mode m \<Longrightarrow>
   pc_main m c = try_except
     (bnd (current (pc_name m) (get_sfc_port_chain c)) (\<lambda>pc.
      bnd (pc_port_chains_get_ids m c False) (\<lambda>ids.
      bnd (lift (pc_system_state_change m pc ids)) (\<lambda>changed. exit_json changed None))))"
  by (simp add: pc_main_def bnd_assoc)

lemma check_mode_no_mutation:
  "(pp_check_mode pp \<longrightarrow> filter mutating (snd (pp_main pp c [])) = []) \<and>
   (fc_check_mode fc \<longrightarrow> filter mutating (snd (fc_main fc c [])) = []) \<and>
   (ppg_check_mode ppg \<longrightarrow> filter mutating (snd (ppg_main ppg c [])) = []) \<and>
   (pc_check_mode pc \<longrightarrow> filter mutating (snd (pc_main pc c [])) = [])"
  using pp_main_check [of pp c] fc_main_check [of fc c] ppg_main_check [of ppg c]
    pc_main_check [of pc c]
  by (auto simp: quiet_nil)

subsection \<open>Removing what is not there\<close>

lemma pp_absent_unchanged:
  assumes "pp_state m = Absent" "\<not> pp_check_mode m" "lookup_ok c PortPair (pp_name m)"
    and "cur_obj c PortPair (pp_name m) = None"
  shows "pp_main m c [] = (Inl (ExitJson False None), cur_calls PortPair (pp_name m))"
  using assms
  apply (simp add: pp_main_def try_except_def getter_eta bnd_run [OF current_run] pp_absent_def)
  apply (simp add: runs)?
  done

lemma fc_absent_unchanged:
  assumes "fc_state m = Absent" "\<not> fc_check_mode m" "lookup_ok c FlowClassifier (fc_name m)"
    and "cur_obj c FlowClassifier (fc_name m) = None"
  shows "fc_main m c [] = (Inl (ExitJson False None), cur_calls FlowClassifier (fc_name m))"
  using assms
  apply (simp add: fc_main_def try_except_def getter_eta bnd_run [OF current_run] fc_absent_def)
  apply (simp add: runs)?
  done

lemma ppg_absent_unchanged:
  assumes "ppg_state m = Absent" "\<not> ppg_check_mode m"
    and "lookup_ok c PortPairGroup (ppg_name m)"
    and "cur_obj c PortPairGroup (ppg_name m) = None"
  shows "ppg_main m c [] = (Inl (ExitJson False None), cur_calls PortPairGroup (ppg_name m))"
  using assms
  apply (simp add: ppg_main_def try_except_def getter_eta bnd_run [OF current_run]
      ppg_absent_def)
  apply (simp add: runs)?
  done

lemma pc_absent_unchanged:
  assumes "pc_state m = Absent" "\<not> pc_check_mode m" "lookup_ok c PortChain (pc_name m)"
    and "cur_obj c PortChain (pc_name m) = None"
  shows "pc_main m c [] = (Inl (ExitJson False None), cur_calls PortChain (pc_name m))"
  using assms
  apply (simp add: pc_main_def try_except_def getter_eta bnd_run [OF current_run] pc_absent_def)
  apply (simp add: runs)?
  done

subsection \<open>Check mode of the port pair module without both ports\<close>

lemma pp_get_ids_undefined_name:
  "\<not> truthy (pp_ingress m) \<or> \<not> truthy (pp_egress m) \<Longrightarrow>
   pp_ports_get_ids m c False = throw (Raise (NameError ''port_ids''))"
  by (cases "pp_ingress m"; cases "pp_egress m")
     (auto simp: pp_ports_get_ids_def pp_missing_def)

lemma pp_check_mode_raises:
  assumes "pp_check_mode m" "lookup_ok c PortPair (pp_name m)"
    and "\<not> truthy (pp_ingress m) \<or> \<not> truthy (pp_egress m)"
  shows "pp_main m c [] =
    (Inl (Raise (NameError ''port_ids'')), cur_calls PortPair (pp_name m))"
  using assms(1,2)
  apply (simp add: pp_main_check_mode try_except_def getter_eta bnd_run [OF current_run]
      pp_get_ids_undefined_name [OF assms(3)])
  apply (simp add: runs)?
  done

lemmas objects = classifier1_def chain_payload_def chain1_def pair_payload_def pair_created_def
  pair_update_def
  chain_ids_def chain_ids_swapped_def

subsection \<open>The comparisons of \<open>_needs_update\<close>\<close>

lemma py_set_ids: "py_set (opt_list (Some ids)) = Inr (PStr ` set ids)"
  by (simp add: list_all_iff)

lemma ppg_needs_update_order:
  "set ids = set ids' \<Longrightarrow>
   ppg_needs_update m ob (Some ids) = ppg_needs_update m ob (Some ids')"
  unfolding ppg_needs_update_def py_set_ids by simp

lemma compare_dict_single:
  "getitem ob k = Inr v \<Longrightarrow>
   compare_dict params ob [k] = Inr (params k \<noteq> PNone \<and> params k \<noteq> v)"
  by simp

lemma port_pair_group_reordered:
  "ppg_main (ppg_base\<lparr>ppg_name := Some ''ppg2'', ppg_port_pairs := Some [''pp2'', ''pp1'']\<rparr>)
     (store [pair1, pair2, group2]) [] =
     (Inl (ExitJson False (Some (snd group2))),
      [Get PortPairGroup ''ppg2'', Get PortPair ''pp2'', Get PortPair ''pp1''])"
  by (auto simp: ppg_base_def store_def entries monad_defs python_defs getters mutators ppg_defs)

subsection \<open>What the calls of a run carry\<close>

lemma emits_ret [simp]: "emits P (ret x)"
  by (simp add: emits_def ret_def)

lemma emits_throw [simp]: "emits P (throw a)"
  by (simp add: emits_def throw_def)

lemma emits_exit_json [simp]: "emits P (exit_json changed res)"
  by (simp add: exit_json_def)

lemma emits_fail_json [simp]: "emits P (fail_json msg)"
  by (simp add: fail_json_def)

lemma emits_remote: "P cl \<Longrightarrow> emits P (remote cl r)"
  by (simp add: emits_def remote_def)

lemma emits_bnd_where:
  assumes "emits P m" and "\<And>t x. fst (m t) = Inr x \<Longrightarrow> Q x"
    and "\<And>x. Q x \<Longrightarrow> emits P (f x)"
  shows "emits P (bnd m f)"
  unfolding emits_def
proof
  fix t
  from assms(1) obtain cs where m: "snd (m t) = t @ cs" "list_all P cs"
    unfolding emits_def by blast
  show "\<exists>cs. snd (bnd m f t) = t @ cs \<and> list_all P cs"
  proof (cases "m t")
    case (Pair r t')
    with m have t': "t' = t @ cs" by simp
    show ?thesis
    proof (cases r)
      case (Inl a)
      with Pair m show ?thesis by (auto simp: bnd_def)
    next
      case (Inr x)
      with Pair have "fst (m t) = Inr x" by simp
      then have "Q x" by (rule assms(2))
      then have "emits P (f x)" by (rule assms(3))
      then obtain ds where "snd (f x t') = t' @ ds" "list_all P ds"
        unfolding emits_def by blast
      with Pair Inr t' m show ?thesis by (auto simp: bnd_def)
    qed
  qed
qed

lemma emits_bnd: "emits P m \<Longrightarrow> (\<And>x. emits P (f x)) \<Longrightarrow> emits P (bnd m f)"
  by (rule emits_bnd_where [where Q = "\<lambda>x. True"]) simp_all

lemma emits_bnd_lift: "(\<And>x. r = Inr x \<Longrightarrow> emits P (f x)) \<Longrightarrow> emits P (bnd (lift r) f)"
  by (cases r) simp_all

lemma emits_try_except: "emits P m \<Longrightarrow> emits P (try_except m)"
  by (simp add: emits_def try_except_snd)

lemma emits_quiet:
  assumes "quiet m" and "\<And>k n. P (Get k n)"
  shows "emits P m"
  unfolding emits_def
proof
  fix t
  from assms(1) obtain cs where cs: "snd (m t) = t @ cs" "filter mutating cs = []"
    unfolding quiet_def by blast
  have "list_all P cs"
    unfolding list_all_iff
  proof
    fix cl
    assume "cl \<in> set cs"
    with cs(2) have "\<not> mutating cl" by (auto simp: filter_empty_conv)
    then show "P cl" by (cases cl) (simp_all add: assms(2))
  qed
  with cs show "\<exists>cs. snd (m t) = t @ cs \<and> list_all P cs" by blast
qed

lemma emits_nil: "emits P m \<Longrightarrow> list_all P (snd (m []))"
  unfolding emits_def
proof -
  assume "\<forall>t. \<exists>cs. snd (m t) = t @ cs \<and> list_all P cs"
  then obtain cs where "snd (m []) = [] @ cs" "list_all P cs" by blast
  then show ?thesis by simp
qed

lemma payload_named:
  "list_all (named e) cs \<Longrightarrow> kw \<in> set (update_payloads cs) \<Longrightarrow> fmlookup kw ''name'' = e"
  by (induction cs rule: update_payloads.induct) auto

lemma payloads_none: "list_all no_update cs \<Longrightarrow> update_payloads cs = []"
  by (induction cs rule: update_payloads.induct) auto

lemma compose_optional_lookup:
  "fmlookup (compose_optional params ks kw) k =
     (if k \<in> set ks \<and> params k \<noteq> PNone then Some (params k) else fmlookup kw k)"
  by (induction ks arbitrary: kw) auto

lemma copy_if_in_lookup: "k \<noteq> key \<Longrightarrow> fmlookup (copy_if_in key ports kw) k = fmlookup kw k"
  by (simp add: copy_if_in_def split: option.splits)

lemma fc_name_optional: "''name'' \<in> set fc_optional_parameters"
  by (simp add: fc_optional_parameters_def)

lemma fc_params_name: "fc_params m ''name'' = opt_str (fc_name m)"
  by (simp add: fc_params_def)

lemma pp_params_name: "pp_params m ''name'' = opt_str (pp_name m)"
  by (simp add: pp_params_def)

lemma pc_params_name: "pc_params m ''name'' = opt_str (pc_name m)"
  by (simp add: pc_params_def)

lemma fc_payload_name:
  "fmlookup (fc_compose_flow_classifier_args m ports) ''name'' = name_entry (fc_name m)"
  unfolding fc_compose_flow_classifier_args_def
  by (cases "fc_name m")
     (simp_all add: copy_if_in_lookup compose_optional_lookup fc_name_optional fc_params_name)

lemma pp_payload_name:
  "fmlookup (pp_compose_port_pair_args m) ''name'' = name_entry (pp_name m)"
  unfolding pp_compose_port_pair_args_def
  by (cases "pp_name m") (simp_all add: compose_optional_lookup pp_params_name)

lemma pc_compose_loop_name:
  "fmlookup d ''name'' = None \<Longrightarrow> pc_compose_loop params (Some d) ks kw = Inr kw' \<Longrightarrow>
   fmlookup kw' ''name'' =
     (if ''name'' \<in> set ks \<and> params ''name'' \<noteq> PNone then Some (params ''name'')
      else fmlookup kw ''name'')"
proof (induction ks arbitrary: kw)
  case Nil
  then show ?case by simp
next
  case (Cons k ks)
  show ?case
  proof (cases "params k = PNone")
    case True
    with Cons.prems(2) have "pc_compose_loop params (Some d) ks kw = Inr kw'" by simp
    from Cons.IH [OF Cons.prems(1) this] True show ?thesis by auto
  next
    case False
    let ?v = "case fmlookup d k of None \<Rightarrow> params k | Some v \<Rightarrow> v"
    from False Cons.prems(2)
    have "pc_compose_loop params (Some d) ks (fmupd k ?v kw) = Inr kw'"
      by (simp add: dict_get_def)
    from Cons.IH [OF Cons.prems(1) this] have
      *: "fmlookup kw' ''name'' =
        (if ''name'' \<in> set ks \<and> params ''name'' \<noteq> PNone then Some (params ''name'')
         else fmlookup (fmupd k ?v kw) ''name'')" .
    show ?thesis
    proof (cases "k = ''name''")
      case True
      with * False Cons.prems(1) show ?thesis by simp
    next
      case False
      with * show ?thesis by simp
    qed
  qed
qed

lemma pc_compose_loop_none:
  "pc_compose_loop params None ks kw = Inr kw' \<Longrightarrow>
   kw' = kw \<and> (''name'' \<in> set ks \<longrightarrow> params ''name'' = PNone)"
proof (induction ks arbitrary: kw)
  case Nil
  then show ?case by simp
next
  case (Cons k ks)
  show ?case
  proof (cases "params k = PNone")
    case True
    with Cons.prems have "pc_compose_loop params None ks kw = Inr kw'" by simp
    from Cons.IH [OF this] True show ?thesis by auto
  next
    case False
    with Cons.prems show ?thesis by (simp add: dict_get_def)
  qed
qed

lemma pc_payload_name:
  assumes "\<And>d. pc_ids = Some d \<Longrightarrow> fmlookup d ''name'' = None"
    and "pc_compose_port_chain_args m pc_ids = Inr kw"
  shows "fmlookup kw ''name'' = name_entry (pc_name m)"
proof (cases pc_ids)
  case None
  from assms(2) have
    "pc_compose_loop (pc_params m) None
       [''name'', ''port_pair_groups'', ''flow_classifiers'', ''chain_parameters'',
        ''chain_id''] fmempty = Inr kw"
    unfolding pc_compose_port_chain_args_def None .
  from pc_compose_loop_none [OF this]
  have "kw = fmempty \<and> pc_params m ''name'' = PNone" by simp
  then show ?thesis by (cases "pc_name m") (simp_all add: pc_params_name)
next
  case (Some d)
  with assms(1) have d: "fmlookup d ''name'' = None" by simp
  from assms(2) have
    "pc_compose_loop (pc_params m) (Some d)
       [''name'', ''port_pair_groups'', ''flow_classifiers'', ''chain_parameters'',
        ''chain_id''] fmempty = Inr kw"
    unfolding pc_compose_port_chain_args_def Some .
  from pc_compose_loop_name [OF d this] show ?thesis
    by (cases "pc_name m") (simp_all add: pc_params_name)
qed

lemma pc_ids_keys:
  assumes "fst (pc_port_chains_get_ids m c foe t) = Inr (Some d)"
  shows "fmlookup d ''name'' = None"
proof -
  let ?g = "pc_resolve (get_sfc_port_pair_group c) foe (names_of (pc_port_pair_groups m)) []"
  let ?h = "pc_resolve (get_sfc_flow_classifier c) foe (names_of (pc_flow_classifiers m)) []"
  from assms have ppgs: "truthy (pc_port_pair_groups m)"
    by (auto simp: pc_port_chains_get_ids_def pc_required_def runs split: if_splits)
  obtain r t' where g: "?g t = (r, t')" by (cases "?g t")
  with assms ppgs obtain ppg_ids where r: "r = Inr (Some ppg_ids)"
    by (cases r; cases "projr r")
       (auto simp: pc_port_chains_get_ids_def bnd_def runs)
  with assms ppgs g have fcs: "truthy (pc_flow_classifiers m)"
    by (auto simp: pc_port_chains_get_ids_def pc_required_def bnd_def runs split: if_splits)
  obtain r2 t2 where h: "?h t' = (r2, t2)" by (cases "?h t'")
  with assms ppgs g r fcs obtain fc_ids where "r2 = Inr (Some fc_ids)"
    by (cases r2; cases "projr r2")
       (auto simp: pc_port_chains_get_ids_def bnd_def runs)
  with assms ppgs g r fcs h show ?thesis
    by (auto simp: pc_port_chains_get_ids_def bnd_def runs)
qed

lemma emits_lift [simp]: "emits P (lift r)"
  by (cases r) simp_all

lemma emits_current:
  "(\<And>k n. P (Get k n)) \<Longrightarrow> (\<And>n. quiet (g n)) \<Longrightarrow> emits P (current name g)"
  by (rule emits_quiet [OF quiet_current])

lemma emits_check:
  assumes "\<And>k n. P (Get k n)" and "quiet ids"
  shows "emits P (bnd ids (\<lambda>x. bnd (lift (ssc x)) (\<lambda>changed. exit_json changed None)))"
  by (rule emits_quiet [OF quiet_bnd [OF assms(2)]]) (simp_all add: quiet_bnd assms(1))

lemma current_no_name: "\<not> truthy name \<Longrightarrow> current name g = ret None"
  by (cases name) (simp_all add: current_def)

text \<open>The shape shared by the four \<open>main\<close> functions, once more.\<close>

lemma emits_main_shape:
  assumes "emits P cur" and "\<And>ob. emits P (chk ob)" and "\<And>ob. emits P (present ob)"
    and "\<And>ob. emits P (absent ob)"
  shows "emits P (try_except (bnd cur (\<lambda>ob. bnd (if b then chk ob else ret ())
           (\<lambda>u. case s of Present \<Rightarrow> present ob | Absent \<Rightarrow> absent ob))))"
  by (intro emits_try_except emits_bnd assms(1))
     (auto intro!: emits_bnd assms split: target.splits)

lemma emits_absent_shape:
  assumes "\<And>i. P (Delete k i)"
  shows "emits P (bnd (case ob of None \<Rightarrow> ret False
                | Some x \<Rightarrow> bnd (remote (Delete k (obj_id x)) (r x)) (\<lambda>u. ret True))
             (\<lambda>changed. exit_json changed None))"
  by (auto intro!: emits_bnd emits_remote assms split: option.splits)

lemma emits_absent:
  assumes "\<And>k i. P (Delete k i)"
  shows "emits P (fc_absent c ob)" "emits P (pp_absent c ob)" "emits P (ppg_absent c ob)"
    "emits P (pc_absent c ob)"
  unfolding fc_absent_def pp_absent_def ppg_absent_def pc_absent_def mutators
  by (rule emits_absent_shape, rule assms)+

lemma emits_pair_exit [simp]:
  "emits P (case x of (ob, changed) \<Rightarrow> exit_json changed (Some ob))"
  by (simp split: prod.splits)

lemma fc_present_named: "emits (named (name_entry (fc_name m))) (fc_present m c fc)"
  unfolding fc_present_def mutators
  by (auto intro!: emits_bnd emits_remote emits_quiet [OF quiet_fc_ports_get_ids]
      simp: fc_payload_name split: option.splits)

lemma pp_present_named: "emits (named (name_entry (pp_name m))) (pp_present m c pp)"
  unfolding pp_present_def mutators
  by (auto intro!: emits_bnd emits_remote emits_quiet [OF quiet_pp_ports_get_ids]
      simp: pp_payload_name split: option.splits)

lemma pc_present_named: "emits (named (name_entry (pc_name m))) (pc_present m c pc)"
  unfolding pc_present_def mutators
proof (rule emits_bnd_where
    [where Q = "\<lambda>x. \<forall>d. x = Some d \<longrightarrow> fmlookup d ''name'' = None"])
  show "emits (named (name_entry (pc_name m))) (pc_port_chains_get_ids m c True)"
    by (rule emits_quiet [OF quiet_pc_port_chains_get_ids]) simp
next
  fix t x
  assume "fst (pc_port_chains_get_ids m c True t) = Inr x"
  then show "\<forall>d. x = Some d \<longrightarrow> fmlookup d ''name'' = None"
    by (auto dest: pc_ids_keys)
next
  fix pc_ids :: "pydict option"
  assume ids: "\<forall>d. pc_ids = Some d \<longrightarrow> fmlookup d ''name'' = None"
  have upd: "emits (named (name_entry (pc_name m)))
      (bnd (lift (pc_compose_port_chain_args m pc_ids)) (\<lambda>pc_kwargs.
         bnd (remote (Update PortChain i pc_kwargs) (update c PortChain i pc_kwargs))
           (\<lambda>updated. ret (updated, True))))" for i
  proof (rule emits_bnd_lift)
    fix kw
    assume "pc_compose_port_chain_args m pc_ids = Inr kw"
    with ids have "fmlookup kw ''name'' = name_entry (pc_name m)"
      by (intro pc_payload_name) auto
    then show "emits (named (name_entry (pc_name m)))
        (bnd (remote (Update PortChain i kw) (update c PortChain i kw))
           (\<lambda>updated. ret (updated, True)))"
      by (auto intro!: emits_bnd emits_remote)
  qed
  show "emits (named (name_entry (pc_name m)))
     (bnd (case pc of
             None \<Rightarrow>
               bnd (lift (pc_compose_port_chain_args m pc_ids)) (\<lambda>pc_kwargs.
               bnd (remote (Create PortChain pc_kwargs) (create c PortChain pc_kwargs))
                 (\<lambda>created. ret (created, True)))
           | Some ob \<Rightarrow>
               bnd (lift (pc_needs_update m ob pc_ids)) (\<lambda>needs.
               if needs
               then bnd (lift (pc_compose_port_chain_args m pc_ids)) (\<lambda>pc_kwargs.
                    bnd (remote (Update PortChain (obj_id ob) pc_kwargs)
                           (update c PortChain (obj_id ob) pc_kwargs))
                      (\<lambda>updated. ret (updated, True)))
               else ret (ob, False)))
        (\<lambda>(pc', changed). exit_json changed (Some pc')))"
    by (rule emits_bnd) (auto intro!: emits_bnd emits_remote upd split: option.splits)
qed

lemma fc_main_named: "emits (named (name_entry (fc_name m))) (fc_main m c)"
  unfolding fc_main_def
  by (rule emits_main_shape)
     (auto intro!: emits_current emits_check fc_present_named emits_absent)

lemma pp_main_named: "emits (named (name_entry (pp_name m))) (pp_main m c)"
  unfolding pp_main_def
  by (rule emits_main_shape)
     (auto intro!: emits_current emits_check pp_present_named emits_absent)

lemma pc_main_named: "emits (named (name_entry (pc_name m))) (pc_main m c)"
  unfolding pc_main_def
  by (rule emits_main_shape)
     (auto intro!: emits_current emits_check pc_present_named emits_absent)

text \<open>Without a current object no update is issued; the port pair group module never issues one.\<close>

lemma fc_present_no_update: "emits no_update (fc_present m c None)"
  unfolding fc_present_def mutators
  by (auto intro!: emits_bnd emits_remote emits_quiet [OF quiet_fc_ports_get_ids])

lemma pp_present_no_update: "emits no_update (pp_present m c None)"
  unfolding pp_present_def mutators
  by (auto intro!: emits_bnd emits_remote emits_quiet [OF quiet_pp_ports_get_ids])

lemma pc_present_no_update: "emits no_update (pc_present m c None)"
  unfolding pc_present_def mutators
  by (auto intro!: emits_bnd emits_remote emits_quiet [OF quiet_pc_port_chains_get_ids])

lemma ppg_present_no_update: "emits no_update (ppg_present m c ppg)"
  unfolding ppg_present_def mutators
  by (auto intro!: emits_bnd emits_remote emits_quiet [OF quiet_ppg_port_pairs_get_ids]
      split: option.splits)

lemma emits_nameless_shape:
  assumes "\<not> truthy name"
    and "\<And>ob. emits P (chk ob)" and "emits P (present None)" and "emits P (absent None)"
  shows "emits P (try_except (bnd (current name g) (\<lambda>ob. bnd (if b then chk ob else ret ())
           (\<lambda>u. case s of Present \<Rightarrow> present ob | Absent \<Rightarrow> absent ob))))"
  unfolding current_no_name [OF assms(1)]
  by (auto intro!: emits_try_except emits_bnd assms(2-4) split: target.splits)

lemma fc_main_no_update: "\<not> truthy (fc_name m) \<Longrightarrow> emits no_update (fc_main m c)"
  unfolding fc_main_def
  by (rule emits_nameless_shape)
     (auto intro!: emits_check fc_present_no_update emits_absent)

lemma pp_main_no_update: "\<not> truthy (pp_name m) \<Longrightarrow> emits no_update (pp_main m c)"
  unfolding pp_main_def
  by (rule emits_nameless_shape)
     (auto intro!: emits_check pp_present_no_update emits_absent)

lemma pc_main_no_update: "\<not> truthy (pc_name m) \<Longrightarrow> emits no_update (pc_main m c)"
  unfolding pc_main_def
  by (rule emits_nameless_shape)
     (auto intro!: emits_check pc_present_no_update emits_absent)

lemma ppg_main_no_update: "emits no_update (ppg_main m c)"
  unfolding ppg_main_def
  by (rule emits_main_shape)
     (auto intro!: emits_current emits_check ppg_present_no_update emits_absent)

lemma payload_name_shape:
  assumes "emits (named (name_entry name)) m" and "\<not> truthy name \<Longrightarrow> emits no_update m"
    and "kw \<in> set (update_payloads (snd (m [])))"
  shows "\<exists>n. name = Some n \<and> n \<noteq> [] \<and> fmlookup kw ''name'' = Some (PStr n)"
proof -
  have "truthy name"
  proof (rule ccontr)
    assume "\<not> truthy name"
    then have "update_payloads (snd (m [])) = []"
      by (intro payloads_none emits_nil assms(2))
    with assms(3) show False by simp
  qed
  then obtain n where n: "name = Some n" "n \<noteq> []" by (cases name) auto
  from payload_named [OF emits_nil [OF assms(1)] assms(3)] n show ?thesis by simp
qed

lemma fc_update_named:
  assumes "kw \<in> set (update_payloads (snd (fc_main m c [])))"
  shows "\<exists>n. fc_name m = Some n \<and> n \<noteq> [] \<and> fmlookup kw ''name'' = Some (PStr n)"
proof (rule payload_name_shape)
  show "emits (named (name_entry (fc_name m))) (fc_main m c)" by (rule fc_main_named)
  show "\<not> truthy (fc_name m) \<Longrightarrow> emits no_update (fc_main m c)"
    by (rule fc_main_no_update)
  show "kw \<in> set (update_payloads (snd (fc_main m c [])))" by (rule assms)
qed

lemma pp_update_named:
  assumes "kw \<in> set (update_payloads (snd (pp_main m c [])))"
  shows "\<exists>n. pp_name m = Some n \<and> n \<noteq> [] \<and> fmlookup kw ''name'' = Some (PStr n)"
proof (rule payload_name_shape)
  show "emits (named (name_entry (pp_name m))) (pp_main m c)" by (rule pp_main_named)
  show "\<not> truthy (pp_name m) \<Longrightarrow> emits no_update (pp_main m c)"
    by (rule pp_main_no_update)
  show "kw \<in> set (update_payloads (snd (pp_main m c [])))" by (rule assms)
qed

lemma pc_update_named:
  assumes "kw \<in> set (update_payloads (snd (pc_main m c [])))"
  shows "\<exists>n. pc_name m = Some n \<and> n \<noteq> [] \<and> fmlookup kw ''name'' = Some (PStr n)"
proof (rule payload_name_shape)
  show "emits (named (name_entry (pc_name m))) (pc_main m c)" by (rule pc_main_named)
  show "\<not> truthy (pc_name m) \<Longrightarrow> emits no_update (pc_main m c)"
    by (rule pc_main_no_update)
  show "kw \<in> set (update_payloads (snd (pc_main m c [])))" by (rule assms)
qed

section \<open>The claims\<close>

text \<open>
  C3. Check mode issues no create, update or delete call in any of the four modules
  (\<open>check_mode_no_mutation\<close>), but it does not always return the changed flag. A port pair
  that exists and is to be removed is given by its name alone; outside check mode the run
  deletes it and reports \<open>changed = True\<close>. In check mode the same parameters end in a
  \<open>NameError\<close>: \<open>_ports_get_ids\<close> returns \<open>port_ids\<close>, a name that is not defined, when
  \<open>ingress\<close> is not given and \<open>fail_on_error\<close> is off. The same holds with the target
  state present.
\<close>

theorem check_mode_port_pair_raises:
  "pp_main pp_remove (store [pair1]) [] =
     (Inl (ExitJson True None), [Get PortPair ''pp1'', Delete PortPair ''id-pp1'']) \<and>
   pp_main (pp_remove\<lparr>pp_check_mode := True\<rparr>) (store [pair1]) [] =
     (Inl (Raise (NameError ''port_ids'')), [Get PortPair ''pp1'']) \<and>
   pp_main (pp_remove\<lparr>pp_state := Present, pp_check_mode := True\<rparr>) (store [pair1]) [] =
     (Inl (Raise (NameError ''port_ids'')), [Get PortPair ''pp1''])"
  by (simp add: pp_remove_def store_def entries monad_defs python_defs getters mutators pp_defs)

text \<open>
  C9. A run of any of the four modules, for any parameters and any remote store, issues at
  most one mutating call (create, update or delete) in total.
\<close>

theorem at_most_one_mutating_call:
  "length (filter mutating (snd (fc_main fc c []))) \<le> 1 \<and>
   length (filter mutating (snd (pp_main pp c []))) \<le> 1 \<and>
   length (filter mutating (snd (ppg_main ppg c []))) \<le> 1 \<and>
   length (filter mutating (snd (pc_main pc c []))) \<le> 1"
  using single_nil [OF single_fc_main] single_nil [OF single_pp_main]
    single_nil [OF single_ppg_main] single_nil [OF single_pc_main]
  by blast

theorem at_most_one_mutating_call_witness:
  "length (filter mutating (snd (pp_main pp_base (store [port1, port2]) []))) \<le> 1 \<and>
   filter mutating (snd (pp_main pp_base (store [port1, port2]) [])) \<noteq> []"
  using at_most_one_mutating_call [of fc_base "store [port1, port2]" pp_base ppg_base pc_base]
  by (simp add: pp_base_def world_defs monad_defs python_defs getters mutators pp_defs)





text \<open>
  Against C7 as it is stated: the ingress port \<open>port1\<close> of a port pair is not found, and
  the message of the failure does not hold \<open>port1\<close>.
\<close>

theorem unresolved_port_counterexample:
  "pp_state pp_base = Present \<and> \<not> pp_check_mode pp_base \<and>
   pp_ingress pp_base = Some ''port1'' \<and>
   lookup (store [port2]) Port ''port1'' = Inr None \<and>
   pp_main pp_base (store [port2]) [] =
     (Inl (FailJson ''Specified ingress port was not found.''),
      [Get PortPair ''pp1'', Get Port ''port1'']) \<and>
   \<not> sublist ''port1'' ''Specified ingress port was not found.''"
proof -
  have "\<not> sublist ''port1'' ''Specified ingress port was not found.''"
    by code_simp
  then show ?thesis
    using pp_ingress_unresolved [of pp_base "store [port2]" "''port1''" "''port2''"]
    by (simp add: pp_base_def store_def entries path_defs)
qed

text \<open>
  C7. In the port pair module, with target state present and check mode off, an ingress
  port whose lookup returns none makes the run fail through \<open>fail_json\<close> with no create,
  update or delete call. When \<open>egress\<close> is given too and the lookup of the current port
  pair did not raise, the message is the fixed text \<open>Specified ingress port was not found.\<close>
  (and \<open>Specified egress port was not found.\<close> for an egress port, once the ingress port
  was found): it names the field and not the value supplied. The messages for a port pair
  of a port pair group and for a port pair group of a port chain do carry the name that was
  not found.
\<close>

theorem unresolved_reference_fails:
  "(pp_state pp = Present \<and> \<not> pp_check_mode pp \<and> pp_ingress pp = Some i \<and>
    lookup c Port i = Inr None \<longrightarrow>
      (\<exists>msg. fst (pp_main pp c []) = Inl (FailJson msg)) \<and>
      filter mutating (snd (pp_main pp c [])) = []) \<and>
   (pp_state pp = Present \<and> \<not> pp_check_mode pp \<and> lookup_ok c PortPair (pp_name pp) \<and>
    pp_ingress pp = Some i \<and> i \<noteq> [] \<and> pp_egress pp = Some e \<and> e \<noteq> [] \<and>
    lookup c Port i = Inr None \<longrightarrow>
      pp_main pp c [] =
        (Inl (FailJson ''Specified ingress port was not found.''),
         cur_calls PortPair (pp_name pp) @ [Get Port i])) \<and>
   (pp_state pp = Present \<and> \<not> pp_check_mode pp \<and> lookup_ok c PortPair (pp_name pp) \<and>
    pp_ingress pp = Some i \<and> i \<noteq> [] \<and> pp_egress pp = Some e \<and> e \<noteq> [] \<and>
    found c Port i \<and> lookup c Port e = Inr None \<longrightarrow>
      pp_main pp c [] =
        (Inl (FailJson ''Specified egress port was not found.''),
         cur_calls PortPair (pp_name pp) @ [Get Port i, Get Port e])) \<and>
   sublist ''ingress'' ''Specified ingress port was not found.'' \<and>
   sublist ''egress'' ''Specified egress port was not found.'' \<and>
   (ppg_state ppg = Present \<and> \<not> ppg_check_mode ppg \<and>
    lookup_ok c PortPairGroup (ppg_name ppg) \<and> ppg_port_pairs ppg = Some (xs @ n # ys) \<and>
    list_all (found c PortPair) xs \<and> lookup c PortPair n = Inr None \<longrightarrow>
      ppg_main ppg c [] =
        (Inl (FailJson (''Specified port pair `'' @ n @ ''' was not found.'')),
         cur_calls PortPairGroup (ppg_name ppg) @ map (Get PortPair) xs @ [Get PortPair n])) \<and>
   (pc_state pc = Present \<and> \<not> pc_check_mode pc \<and>
    lookup_ok c PortChain (pc_name pc) \<and> pc_port_pair_groups pc = Some (xs @ n # ys) \<and>
    list_all (found c PortPairGroup) xs \<and> lookup c PortPairGroup n = Inr None \<longrightarrow>
      pc_main pc c [] =
        (Inl (FailJson (''Specified port pair group `'' @ n @ ''' wat not found.'')),
         cur_calls PortChain (pc_name pc) @ map (Get PortPairGroup) xs @
         [Get PortPairGroup n])) \<and>
   sublist n (''Specified port pair `'' @ n @ ''' was not found.'') \<and>
   sublist n (''Specified port pair group `'' @ n @ ''' wat not found.'')"
  using pp_unresolved_fails [of pp i c] pp_ingress_unresolved [of pp c i e]
    pp_egress_unresolved [of pp c i e] message_names_field message_names_value [of n]
    ppg_pair_unresolved [of ppg c xs n ys] pc_group_unresolved [of pc c xs n ys]
  by blast

theorem unresolved_reference_fails_witness:
  "pp_state pp_base = Present \<and> \<not> pp_check_mode pp_base \<and>
   lookup_ok (store [port1]) PortPair (pp_name pp_base) \<and>
   pp_ingress pp_base = Some ''port1'' \<and> pp_egress pp_base = Some ''port2'' \<and>
   found (store [port1]) Port ''port1'' \<and>
   lookup (store [port1]) Port ''port2'' = Inr None \<and>
   lookup (store [port2]) Port ''port1'' = Inr None \<and>
   pp_main pp_base (store [port2]) [] =
     (Inl (FailJson ''Specified ingress port was not found.''),
      [Get PortPair ''pp1'', Get Port ''port1'']) \<and>
   pp_main pp_base (store [port1]) [] =
     (Inl (FailJson ''Specified egress port was not found.''),
      [Get PortPair ''pp1'', Get Port ''port1'', Get Port ''port2'']) \<and>
   ppg_state ppg_base = Present \<and> \<not> ppg_check_mode ppg_base \<and>
   ppg_port_pairs ppg_base = Some ([''pp1''] @ ''pp2'' # []) \<and>
   list_all (found (store [pair1]) PortPair) [''pp1''] \<and>
   lookup (store [pair1]) PortPair ''pp2'' = Inr None \<and>
   ppg_main ppg_base (store [pair1]) [] =
     (Inl (FailJson ''Specified port pair `pp2' was not found.''),
      [Get PortPairGroup ''ppg1'', Get PortPair ''pp1'', Get PortPair ''pp2'']) \<and>
   pc_main pc_base (store [group1]) [] =
     (Inl (FailJson ''Specified port pair group `ppg2' wat not found.''),
      [Get PortChain ''pc1'', Get PortPairGroup ''ppg1'', Get PortPairGroup ''ppg2''])"
  using unresolved_reference_fails [of pp_base "''port1''" "store [port2]" "''port2''"
      ppg_base "[]" "''pp1''" "[''pp2'']" pc_base]
    unresolved_reference_fails [of pp_base "''port1''" "store [port1]" "''port2''"
      ppg_base "[]" "''pp1''" "[''pp2'']" pc_base]
    unresolved_reference_fails [of pp_base "''port1''" "store [pair1]" "''port2''"
      ppg_base "[''pp1'']" "''pp2''" "[]" pc_base]
    unresolved_reference_fails [of pp_base "''port1''" "store [group1]" "''port2''"
      ppg_base "[''ppg1'']" "''ppg2''" "[]" pc_base]
  by (simp add: pp_base_def ppg_base_def pc_base_def store_def entries path_defs)

text \<open>
  C10. The port pair group module never issues an update call, whatever its parameters and
  the remote store. With target state present and check mode off, when the current port
  pair group exists, its port pairs resolve and the needs-update decision is true, the run
  ends with a \<open>NameError\<close> on \<open>_compose_port_pair_groups_args\<close> after the lookups alone.
  The call that follows that name in the source is the update of a port pair, not of a port
  pair group.
\<close>

theorem ppg_update_never_issued:
  "update_payloads (snd (ppg_main m c [])) = [] \<and>
   (ppg_state m = Present \<and> \<not> ppg_check_mode m \<and>
    ppg_name m = Some n \<and> n \<noteq> [] \<and> lookup c PortPairGroup n = Inr (Some ob) \<and>
    truthy (ppg_port_pairs m) \<and>
    list_all (found c PortPair) (names_of (ppg_port_pairs m)) \<and>
    ppg_needs_update m ob (Some (map (id_of c PortPair) (names_of (ppg_port_pairs m))))
      = Inr True \<longrightarrow>
      ppg_main m c [] =
        (Inl (Raise (NameError ''_compose_port_pair_groups_args'')),
         Get PortPairGroup n # map (Get PortPair) (names_of (ppg_port_pairs m)))) \<and>
   snd (ppg_update_call c ob kw t) = t @ [Update PortPair (obj_id ob) kw]"
proof -
  have "update_payloads (snd (ppg_main m c [])) = []"
    by (intro payloads_none emits_nil ppg_main_no_update)
  moreover have "snd (ppg_update_call c ob kw t) = t @ [Update PortPair (obj_id ob) kw]"
    by (cases "update c PortPair (obj_id ob) kw")
       (simp_all add: ppg_update_call_def update_sfc_port_pair_def runs)
  ultimately show ?thesis
    using ppg_update_path [of m n c ob] by blast
qed

theorem ppg_update_never_issued_witness:
  "ppg_state ppg_base = Present \<and> \<not> ppg_check_mode ppg_base \<and>
   ppg_name ppg_base = Some ''ppg1'' \<and>
   lookup (store [pair1, pair2, group1]) PortPairGroup ''ppg1'' = Inr (Some (snd group1)) \<and>
   truthy (ppg_port_pairs ppg_base) \<and>
   list_all (found (store [pair1, pair2, group1]) PortPair) (names_of (ppg_port_pairs ppg_base)) \<and>
   ppg_needs_update ppg_base (snd group1) (Some [''id-pp1'', ''id-pp2'']) = Inr True \<and>
   ppg_main ppg_base (store [pair1, pair2, group1]) [] =
     (Inl (Raise (NameError ''_compose_port_pair_groups_args'')),
      [Get PortPairGroup ''ppg1'', Get PortPair ''pp1'', Get PortPair ''pp2''])"
  using ppg_update_never_issued [of ppg_base "store [pair1, pair2, group1]" "''ppg1''"
      "snd group1" fmempty "[]"]
  by (simp add: ppg_base_def store_def entries path_defs names_of_def ppg_needs_update_def
      getitem_def)

text \<open>
  C8. Outside check mode, removing an object that does not exist reports
  \<open>changed = False\<close> after the lookup alone, in all four modules
  (\<open>pp_absent_unchanged\<close> and its three siblings). In check mode the port pair module does
  not: with the name alone given and no port pair of that name, the run ends in the
  \<open>NameError\<close> on \<open>port_ids\<close> instead of reporting \<open>changed = False\<close>.
\<close>

theorem absent_check_mode_port_pair_raises:
  "pp_state (pp_remove\<lparr>pp_check_mode := True\<rparr>) = Absent \<and>
   lookup (store []) PortPair ''pp1'' = Inr None \<and>
   pp_main pp_remove (store []) [] = (Inl (ExitJson False None), [Get PortPair ''pp1'']) \<and>
   pp_main (pp_remove\<lparr>pp_check_mode := True\<rparr>) (store []) [] =
     (Inl (Raise (NameError ''port_ids'')), [Get PortPair ''pp1''])"
  by (simp add: pp_remove_def store_def monad_defs python_defs getters mutators pp_defs)

text \<open>
  C1. The port pair group module compares the set of resolved IDs with the set on the
  current object (\<open>ppg_needs_update_order\<close>). The port chain module does not reach a
  decision at all: with the port pair groups given in another order than on the current
  chain, and resolving to the same set of IDs, \<open>_needs_update\<close> raises \<open>AttributeError\<close>
  on \<open>module.param\<close>, and so does the run.
\<close>

theorem port_chain_list_comparison_raises:
  "py_set (PList [PStr ''id-ppg2'', PStr ''id-ppg1'']) =
     py_set (PList [PStr ''id-ppg1'', PStr ''id-ppg2'']) \<and>
   getitem (snd chain1) ''port_pair_groups'' = Inr (PList [PStr ''id-ppg1'', PStr ''id-ppg2'']) \<and>
   pc_needs_update (pc_base\<lparr>pc_port_pair_groups := Some [''ppg2'', ''ppg1'']\<rparr>) (snd chain1)
     (Some chain_ids_swapped) = Inl (AttributeError ''param'') \<and>
   pc_main (pc_base\<lparr>pc_port_pair_groups := Some [''ppg2'', ''ppg1'']\<rparr>)
     (store [group1, group2, classifier1, chain1]) [] =
     (Inl (Raise (AttributeError ''param'')),
      [Get PortChain ''pc1'', Get PortPairGroup ''ppg2'', Get PortPairGroup ''ppg1'',
       Get FlowClassifier ''fc1''])"
  by (auto simp: pc_base_def store_def entries objects monad_defs python_defs getters mutators
      pc_defs)

text \<open>
  C2. A first run of the port chain module creates the chain; a second run with the same
  parameters, which finds the chain the first one created, raises \<open>AttributeError\<close> on
  \<open>module.param\<close> instead of reporting \<open>changed = False\<close>. In the port pair module the
  second run compares the ingress name given with the ID it resolves to, finds them
  different and updates the port pair: \<open>changed = True\<close> again.
\<close>

theorem second_run_not_unchanged:
  "pc_main pc_base (store [group1, group2, classifier1]) [] =
     (Inl (ExitJson True (Some (snd chain1))),
      [Get PortChain ''pc1'', Get PortPairGroup ''ppg1'', Get PortPairGroup ''ppg2'',
       Get FlowClassifier ''fc1'', Create PortChain chain_payload]) \<and>
   pc_main pc_base (store [group1, group2, classifier1, chain1]) [] =
     (Inl (Raise (AttributeError ''param'')),
      [Get PortChain ''pc1'', Get PortPairGroup ''ppg1'', Get PortPairGroup ''ppg2'',
       Get FlowClassifier ''fc1'']) \<and>
   pp_main pp_base (store [port1, port2]) [] =
     (Inl (ExitJson True (Some (snd pair_created))),
      [Get PortPair ''pp1'', Get Port ''port1'', Get Port ''port2'',
       Create PortPair pair_payload]) \<and>
   pp_main pp_base (store [port1, port2, pair_created]) [] =
     (Inl (ExitJson True (Some \<lparr>obj_id = ''new-id'', obj_fields = pair_update\<rparr>)),
      [Get PortPair ''pp1'', Get Port ''port1'', Get Port ''port2'',
       Update PortPair ''new-id'' pair_update])"
  by (simp add: pc_base_def pp_base_def store_def entries objects monad_defs python_defs
      getters mutators pc_defs pp_defs)

text \<open>
  C5. In the port chain module the dictionary loop of \<open>_needs_update\<close> is not reached from
  \<open>main\<close>: with \<open>chain_parameters\<close> different from the current chain's, the decision is an
  \<open>AttributeError\<close> on \<open>module.param\<close>, not \<open>True\<close>. Called without the two lists, the
  loop compares \<open>chain_parameters\<close> with the variable \<open>value\<close> left by the loop before it,
  the list of flow classifiers, and answers \<open>True\<close> for parameters equal to the current
  chain's.
\<close>

theorem port_chain_dict_comparison:
  "getitem (snd chain1) ''chain_parameters'' =
     Inr (PDict (fmupd ''correlation'' (PStr ''mpls'') fmempty)) \<and>
   pc_needs_update
     (pc_base\<lparr>pc_chain_parameters := Some (fmupd ''correlation'' (PStr ''nsh'') fmempty)\<rparr>)
     (snd chain1) (Some chain_ids) = Inl (AttributeError ''param'') \<and>
   pc_main
     (pc_base\<lparr>pc_chain_parameters := Some (fmupd ''correlation'' (PStr ''nsh'') fmempty)\<rparr>)
     (store [group1, group2, classifier1, chain1]) [] =
     (Inl (Raise (AttributeError ''param'')),
      [Get PortChain ''pc1'', Get PortPairGroup ''ppg1'', Get PortPairGroup ''ppg2'',
       Get FlowClassifier ''fc1'']) \<and>
   pc_params (pc_base\<lparr>pc_port_pair_groups := None, pc_flow_classifiers := None\<rparr>)
     ''chain_parameters'' = PDict (fmupd ''correlation'' (PStr ''mpls'') fmempty) \<and>
   pc_needs_update (pc_base\<lparr>pc_port_pair_groups := None, pc_flow_classifiers := None\<rparr>)
     (snd chain1) (Some chain_ids) = Inr True"
  by (simp add: pc_base_def store_def entries objects monad_defs python_defs getters mutators
      pc_defs)




end
